theory Spec2Isabelle
  imports Complex_Main "HOL-Library.Char_ord" "HOL-Library.List_Lexorder"
begin

section \<open>Values of the raw records\<close>

text \<open>
  The records handed to the models are rows of the datastore decoded from JSON
  (\<^verbatim>\<open>List[Dict]\<close>): a dictionary from column names to scalar values.  A Python
  \<^verbatim>\<open>str\<close> is a list of characters, a Python \<^verbatim>\<open>float\<close> is taken as a real number.
\<close>

datatype pyval = PNone | PBool bool | PInt int | PFloat real | PStr string

type_synonym pydict = "string \<rightharpoonup> pyval"

text \<open>\<^verbatim>\<open>d.get(k, default)\<close>: the default is used only when the key is absent.\<close>

definition dict_get :: "pydict \<Rightarrow> string \<Rightarrow> pyval \<Rightarrow> pyval" where
  "dict_get d k dflt = (case d k of None \<Rightarrow> dflt | Some v \<Rightarrow> v)"

text \<open>Python's truth value of a scalar (\<^verbatim>\<open>if x\<close>, \<^verbatim>\<open>not x\<close>).\<close>

fun truthy :: "pyval \<Rightarrow> bool" where
  "truthy PNone = False"
| "truthy (PBool b) = b"
| "truthy (PInt i) = (i \<noteq> 0)"
| "truthy (PFloat r) = (r \<noteq> 0)"
| "truthy (PStr s) = (s \<noteq> [])"

section \<open>Performance model: risk level\<close>

text \<open>
  \<^verbatim>\<open>np.mean\<close> of a list of numbers.  On the empty list NumPy returns \<^verbatim>\<open>nan\<close>, which
  compares false with everything; \<open>None\<close> stands for it.
\<close>

definition np_mean :: "real list \<Rightarrow> real option" where
  "np_mean xs = (if xs = [] then None else Some (sum_list xs / real (length xs)))"

datatype risk = Low | Medium | High

fun risk_name :: "risk \<Rightarrow> string" where
  "risk_name Low = ''low''"
| "risk_name Medium = ''medium''"
| "risk_name High = ''high''"

text \<open>The order low < medium < high of the tiers.\<close>

fun risk_rank :: "risk \<Rightarrow> nat" where
  "risk_rank Low = 0"
| "risk_rank Medium = 1"
| "risk_rank High = 2"

text \<open>The accumulated \<^verbatim>\<open>risk_score\<close> of \<^verbatim>\<open>_calculate_risk_level\<close>.\<close>

definition risk_score :: "real \<Rightarrow> real \<Rightarrow> real list \<Rightarrow> nat" where
  "risk_score completion_rate quiz_score tab_switches =
     (if completion_rate < 0.5 then 2 else if completion_rate < 0.7 then 1 else 0)
   + (if quiz_score < 60 then 2 else if quiz_score < 75 then 1 else 0)
   + (case np_mean tab_switches of
        None \<Rightarrow> 0
      | Some avg_switches \<Rightarrow> if avg_switches > 5 then 1 else 0)"

definition calculate_risk_level :: "real \<Rightarrow> real \<Rightarrow> real list \<Rightarrow> risk" where
  "calculate_risk_level completion_rate quiz_score tab_switches =
     (let s = risk_score completion_rate quiz_score tab_switches
      in if s \<ge> 4 then High else if s \<ge> 2 then Medium else Low)"

section \<open>Training endpoint (\<^verbatim>\<open>main.py\<close>, \<^verbatim>\<open>services/training_service.py\<close>)\<close>

text \<open>Decimal rendering of a length, as an f-string prints it.\<close>

fun string_of_nat :: "nat \<Rightarrow> string" where
  "string_of_nat n =
     (if n < 10 then [char_of (48 + n)]
      else string_of_nat (n div 10) @ [char_of (48 + n mod 10)])"

declare string_of_nat.simps [simp del]

type_synonym metrics = "(string \<times> real) list"

text \<open>
  The calls that leave \<^verbatim>\<open>train_model\<close>, in the order they are made: the fetch of the
  records, \<^verbatim>\<open>model.train(data)\<close> (feature building and fitting), \<^verbatim>\<open>model.save()\<close>,
  and the background task that saves the metrics.
\<close>

datatype event =
    FetchTrainingData string "string option"
  | ModelTrain string "pydict list"
  | ModelSave string
  | AddTaskSaveMetrics string metrics nat

record train_request =
  req_model_type :: string
  req_user_id :: "string option"
  force_retrain :: bool

record train_response =
  success :: bool
  model_type :: string
  metrics :: metrics
  training_samples :: nat
  trained_at :: string
  message :: "string option"

text \<open>\<^verbatim>\<open>HTTPException(status_code=...)\<close>; the detail text is left out.\<close>

datatype http_error = HTTPException nat

definition MODEL_TYPES :: "string list" where
  "MODEL_TYPES = [''scheduling'', ''recommendation'', ''performance'']"

text \<open>
  \<^verbatim>\<open>TrainingService.train\<close>.  \<open>model_train mt data\<close> stands for \<^verbatim>\<open>self.models[mt].train(data)\<close>,
  the feature building and fitting of the model of that type: it gives the metrics, or
  \<open>Inl\<close> the text of the exception it raised.  A failure of \<^verbatim>\<open>model.save()\<close> is only logged.
\<close>

definition training_service_train ::
  "(string \<Rightarrow> pydict list \<Rightarrow> string + metrics) \<Rightarrow> string \<Rightarrow> pydict list
     \<Rightarrow> (string + metrics) \<times> event list" where
  "training_service_train model_train mt data =
     (if mt \<notin> set MODEL_TYPES then (Inl (''Unknown model type: '' @ mt), [])
      else case model_train mt data of
             Inl e \<Rightarrow> (Inl e, [ModelTrain mt data])
           | Inr m \<Rightarrow> (Inr m, [ModelTrain mt data, ModelSave mt]))"

text \<open>
  \<^verbatim>\<open>train_model\<close>.  \<open>fetch\<close> is \<^verbatim>\<open>data_service.fetch_training_data\<close>, \<open>now\<close> the timestamp of
  the response.  Every exception inside the handler's \<^verbatim>\<open>try\<close>, the 400 for an unknown model
  type included, leaves as a 500.
\<close>

definition train_model ::
  "(string \<Rightarrow> string option \<Rightarrow> pydict list) \<Rightarrow> (string \<Rightarrow> pydict list \<Rightarrow> string + metrics)
     \<Rightarrow> string \<Rightarrow> train_request \<Rightarrow> (http_error + train_response) \<times> event list" where
  "train_model fetch model_train now request =
     (let mt = req_model_type request in
      if mt \<notin> set MODEL_TYPES then (Inl (HTTPException 500), [])
      else
        let training_data = fetch mt (req_user_id request);
            fetched = [FetchTrainingData mt (req_user_id request)]
        in if length training_data < 50 then
             (Inr \<lparr> success = False, model_type = mt, metrics = [],
                    training_samples = length training_data, trained_at = now,
                    message = Some (''Insufficient data: '' @ string_of_nat (length training_data)
                                    @ '' samples (minimum 50 required)'') \<rparr>,
              fetched)
           else
             case training_service_train model_train mt training_data of
               (Inl e, evs) \<Rightarrow> (Inl (HTTPException 500), fetched @ evs)
             | (Inr m, evs) \<Rightarrow>
                 (Inr \<lparr> success = True, model_type = mt, metrics = m,
                        training_samples = length training_data, trained_at = now,
                        message = Some ''Model trained successfully'' \<rparr>,
                  fetched @ evs @ [AddTaskSaveMetrics mt m (length training_data)]))"

section \<open>Python built-ins used by the models\<close>

datatype pyerr = ValueError | TypeError | AttributeError | OverflowError

text \<open>
  The left operand of a division by a \<^verbatim>\<open>float\<close>, as in \<^verbatim>\<open>x / 7200.0\<close>: an \<^verbatim>\<open>int\<close> is
  converted to a \<^verbatim>\<open>float\<close> first, which raises \<^verbatim>\<open>OverflowError\<close> from the first integer on
  that rounds to \<open>2 ^ 1024\<close>; \<^verbatim>\<open>None\<close> and strings raise \<^verbatim>\<open>TypeError\<close>.
\<close>

definition float_limit :: int where
  "float_limit = 2 ^ 1024 - 2 ^ 970"

fun py_float :: "pyval \<Rightarrow> pyerr + real" where
  "py_float (PBool b) = Inr (if b then 1 else 0)"
| "py_float (PInt i) = (if \<bar>i\<bar> < float_limit then Inr (real_of_int i) else Inl OverflowError)"
| "py_float (PFloat r) = Inr r"
| "py_float PNone = Inl TypeError"
| "py_float (PStr s) = Inl TypeError"

text \<open>\<^verbatim>\<open>xs.index(x)\<close>: the first position of \<open>x\<close>, \<open>None\<close> for the \<^verbatim>\<open>ValueError\<close>.\<close>

fun index_of :: "'a list \<Rightarrow> 'a \<Rightarrow> nat option" where
  "index_of [] x = None"
| "index_of (y # ys) x = (if x = y then Some 0 else map_option Suc (index_of ys x))"

text \<open>
  \<^verbatim>\<open>int(s)\<close> on a string: white space around the number is dropped, one sign may lead,
  then decimal digits follow, with single underscores allowed between digits.  \<open>None\<close> is
  the \<^verbatim>\<open>ValueError\<close>.  Among the characters of a HOL string (code points below 256) the
  white space \<^verbatim>\<open>int\<close> drops is tab to carriage return, the space, and the code points 133
  and 160.
\<close>

definition py_space :: "char \<Rightarrow> bool" where
  "py_space c = (let n = (of_char c :: nat)
                 in (9 \<le> n \<and> n \<le> 13) \<or> n = 32 \<or> n = 133 \<or> n = 160)"

definition py_digit :: "char \<Rightarrow> bool" where
  "py_digit c = (let n = (of_char c :: nat) in 48 \<le> n \<and> n \<le> 57)"

definition py_strip :: "string \<Rightarrow> string" where
  "py_strip s = rev (dropWhile py_space (rev (dropWhile py_space s)))"

fun parse_digits :: "nat \<Rightarrow> string \<Rightarrow> nat option" where
  "parse_digits acc [] = Some acc"
| "parse_digits acc (c # cs) =
     (if py_digit c then parse_digits (acc * 10 + (of_char c - 48)) cs
      else if c = CHR ''_'' \<and> cs \<noteq> [] \<and> py_digit (hd cs) then parse_digits acc cs
      else None)"

definition py_int :: "string \<Rightarrow> int option" where
  "py_int s =
     (let t = py_strip s;
          neg = (t \<noteq> [] \<and> hd t = CHR ''-'');
          body = (if t \<noteq> [] \<and> (hd t = CHR ''-'' \<or> hd t = CHR ''+'') then tl t else t)
      in if body = [] \<or> \<not> py_digit (hd body) then None
         else map_option (\<lambda>n. if neg then - int n else int n) (parse_digits 0 body))"

text \<open>The slice \<^verbatim>\<open>s[11:13]\<close>.\<close>

definition slice_11_13 :: "string \<Rightarrow> string" where
  "slice_11_13 s = take 2 (drop 11 s)"

text \<open>\<^verbatim>\<open>s.replace('Z', '+00:00')\<close>.\<close>

definition replace_Z :: "string \<Rightarrow> string" where
  "replace_Z s = concat (map (\<lambda>c. if c = CHR ''Z'' then ''+00:00'' else [c]) s)"

text \<open>
  \<^verbatim>\<open>datetime.fromisoformat(s).weekday()\<close>, \<open>None\<close> when \<^verbatim>\<open>fromisoformat\<close> raises.  The
  parser belongs to the standard library and is the parameter \<open>lib\<close>; what is fixed here
  is that it rejects every string too short to hold a date (fewer than 7 characters).
\<close>

definition fromisoformat_weekday :: "(string \<Rightarrow> nat option) \<Rightarrow> string \<Rightarrow> nat option" where
  "fromisoformat_weekday lib s = (if length s < 7 then None else lib s)"

section \<open>Scheduling model (\<^verbatim>\<open>models/scheduling_model.py\<close>)\<close>

definition METHODS :: "string list" where
  "METHODS = [''pomodoro'', ''flowtime'', ''blitz'', ''52_17'']"

text \<open>
  \<^verbatim>\<open>sklearn.preprocessing.LabelEncoder\<close>: \<^verbatim>\<open>fit\<close> keeps the sorted distinct labels as
  \<^verbatim>\<open>classes_\<close>, \<^verbatim>\<open>transform\<close> gives the position of each label in them and
  \<^verbatim>\<open>inverse_transform\<close> the label at each position; both raise \<^verbatim>\<open>ValueError\<close> on a
  label or a position the encoder has not seen.
\<close>

definition label_encoder_fit :: "string list \<Rightarrow> string list" where
  "label_encoder_fit ys = sort (remdups ys)"

definition label_transform :: "string list \<Rightarrow> string list \<Rightarrow> pyerr + nat list" where
  "label_transform classes ys =
     (if \<forall>y \<in> set ys. y \<in> set classes then Inr (map (\<lambda>y. the (index_of classes y)) ys)
      else Inl ValueError)"

definition label_inverse_transform :: "string list \<Rightarrow> nat list \<Rightarrow> pyerr + string list" where
  "label_inverse_transform classes is =
     (if \<forall>i \<in> set is. i < length classes then Inr (map (\<lambda>i. classes ! i) is)
      else Inl ValueError)"

text \<open>\<^verbatim>\<open>self.label_encoder\<close> after \<^verbatim>\<open>__init__\<close>: fitted on \<^verbatim>\<open>METHODS\<close>.\<close>

definition encoder_classes :: "string list" where
  "encoder_classes = label_encoder_fit METHODS"

text \<open>The hour of a record in \<^verbatim>\<open>prepare_features\<close>.\<close>

definition sched_hour :: "pydict \<Rightarrow> int" where
  "sched_hour record =
     (case dict_get record ''started_at'' (PStr []) of
        PStr started_at \<Rightarrow>
          if started_at \<noteq> [] then
            (if length started_at > 13 then
               (case py_int (slice_11_13 started_at) of Some h \<Rightarrow> h | None \<Rightarrow> 12)
             else 12)
          else 12
      | _ \<Rightarrow> 12)"

text \<open>
  The day of the week of a record in \<^verbatim>\<open>prepare_features\<close>; \<^verbatim>\<open>started_at.replace\<close> on
  a value that is no string raises inside the \<^verbatim>\<open>try\<close> as well.
\<close>

definition sched_day_of_week :: "(string \<Rightarrow> nat option) \<Rightarrow> pydict \<Rightarrow> nat" where
  "sched_day_of_week lib record =
     (case dict_get record ''started_at'' (PStr []) of
        PStr started_at \<Rightarrow>
          (case fromisoformat_weekday lib (replace_Z started_at) of
             Some d \<Rightarrow> d
           | None \<Rightarrow> 0)
      | _ \<Rightarrow> 0)"

text \<open>
  The feature vector of one record.  Its entries are evaluated in order, so a method
  outside \<^verbatim>\<open>METHODS\<close> raises the \<^verbatim>\<open>ValueError\<close> of \<^verbatim>\<open>list.index\<close> before a duration or
  tab-switch count raises the \<^verbatim>\<open>TypeError\<close> or the \<^verbatim>\<open>OverflowError\<close> of the division.
\<close>

definition sched_feature :: "(string \<Rightarrow> nat option) \<Rightarrow> pydict \<Rightarrow> pyerr + real list" where
  "sched_feature lib record =
     (let hour = sched_hour record;
          day_of_week = sched_day_of_week lib record
      in case index_of (map PStr METHODS) (dict_get record ''method_used'' (PStr ''pomodoro'')) of
           None \<Rightarrow> Inl ValueError
         | Some m \<Rightarrow>
             (case py_float (dict_get record ''duration_seconds'' (PInt 1500)) of
                Inl e \<Rightarrow> Inl e
              | Inr duration \<Rightarrow>
                  (case py_float (dict_get record ''tab_switch_count'' (PInt 0)) of
                     Inl e \<Rightarrow> Inl e
                   | Inr tab_switches \<Rightarrow>
                       Inr [real_of_int hour / 24, real day_of_week / 7, real m / 4,
                            duration / 7200, tab_switches / 20,
                            if truthy (dict_get record ''completed'' (PBool False))
                            then 1 else 0])))"

fun prepare_features :: "(string \<Rightarrow> nat option) \<Rightarrow> pydict list \<Rightarrow> pyerr + real list list" where
  "prepare_features lib [] = Inr []"
| "prepare_features lib (record # data) =
     (case sched_feature lib record of
        Inl e \<Rightarrow> Inl e
      | Inr feature \<Rightarrow>
          (case prepare_features lib data of
             Inl e \<Rightarrow> Inl e
           | Inr features \<Rightarrow> Inr (feature # features)))"

text \<open>The label of one record in \<^verbatim>\<open>prepare_labels\<close>.\<close>

definition label_method :: "pydict \<Rightarrow> string" where
  "label_method record =
     (case dict_get record ''method_used'' (PStr ''pomodoro'') of
        PStr method \<Rightarrow> if method \<notin> set METHODS then ''pomodoro'' else method
      | _ \<Rightarrow> ''pomodoro'')"

definition prepare_labels :: "pydict list \<Rightarrow> pyerr + nat list" where
  "prepare_labels data = label_transform encoder_classes (map label_method data)"

text \<open>
  \<^verbatim>\<open>_find_optimal_hours\<close>.  The hour of a record, \<open>None\<close> when the \<^verbatim>\<open>try\<close> block raises
  and the record is skipped: \<^verbatim>\<open>len\<close> of a value that is no string, or \<^verbatim>\<open>int\<close> of a
  slice that is no number.
\<close>

definition record_hour :: "pydict \<Rightarrow> int option" where
  "record_hour record =
     (case dict_get record ''started_at'' (PStr []) of
        PStr started_at \<Rightarrow>
          if length started_at > 13 then py_int (slice_11_13 started_at) else Some 12
      | _ \<Rightarrow> None)"

definition record_completed :: "pydict \<Rightarrow> bool" where
  "record_completed record = truthy (dict_get record ''completed'' (PBool False))"

text \<open>
  \<^verbatim>\<open>hour_stats\<close> is a dictionary from hour to the pair of \<^verbatim>\<open>total\<close> and \<^verbatim>\<open>completed\<close>; it is
  kept as an association list in insertion order, the order in which Python iterates.
\<close>

type_synonym hour_stats = "(int \<times> nat \<times> nat) list"

definition add_session :: "hour_stats \<Rightarrow> int \<Rightarrow> bool \<Rightarrow> hour_stats" where
  "add_session stats hour completed =
     (let stats' = (if hour \<notin> fst ` set stats then stats @ [(hour, 0, 0)] else stats)
      in map (\<lambda>(h, total, compl).
                if h = hour then (h, total + 1, if completed then compl + 1 else compl)
                else (h, total, compl)) stats')"

definition collect_hour_stats :: "pydict list \<Rightarrow> hour_stats" where
  "collect_hour_stats user_data =
     foldl (\<lambda>stats record.
              case record_hour record of
                None \<Rightarrow> stats
              | Some hour \<Rightarrow> add_session stats hour (record_completed record))
       [] user_data"

definition hour_rates :: "hour_stats \<Rightarrow> (int \<times> real) list" where
  "hour_rates stats =
     map (\<lambda>(h, total, compl). (h, real compl / real total))
       (filter (\<lambda>(h, total, compl). total \<ge> 3) stats)"

text \<open>
  \<^verbatim>\<open>sort(key=..., reverse=True)\<close> is stable: it is the stable sort by the negated rate.
\<close>

definition find_optimal_hours :: "pydict list \<Rightarrow> int list" where
  "find_optimal_hours user_data =
     (let rates = sort_key (\<lambda>x. - snd x) (hour_rates (collect_hour_stats user_data));
          optimal = (if rates \<noteq> [] then map fst (take 6 rates) else [9, 10, 11, 14, 15, 16])
      in sort optimal)"

text \<open>
  What the optimal hours are measured against: the sessions of the history that fall in
  an hour, those of them that were completed, and the completion rate of the hour.
\<close>

definition sessions_at :: "pydict list \<Rightarrow> int \<Rightarrow> nat" where
  "sessions_at user_data h = length (filter (\<lambda>r. record_hour r = Some h) user_data)"

definition completed_at :: "pydict list \<Rightarrow> int \<Rightarrow> nat" where
  "completed_at user_data h =
     length (filter (\<lambda>r. record_hour r = Some h \<and> record_completed r) user_data)"

definition completion_rate_at :: "pydict list \<Rightarrow> int \<Rightarrow> real" where
  "completion_rate_at user_data h =
     real (completed_at user_data h) / real (sessions_at user_data h)"

section \<open>Performance model (\<^verbatim>\<open>models/performance_model.py\<close>)\<close>

text \<open>
  Two values are the same dictionary key (or set element) in Python when they are equal:
  \<^verbatim>\<open>True\<close>, \<^verbatim>\<open>1\<close> and \<^verbatim>\<open>1.0\<close> are one key.  \<open>py_key\<close> gives each value its representative.
\<close>

fun py_key :: "pyval \<Rightarrow> pyval" where
  "py_key (PBool b) = PInt (if b then 1 else 0)"
| "py_key (PFloat r) = (if real_of_int \<lfloor>r\<rfloor> = r then PInt \<lfloor>r\<rfloor> else PFloat r)"
| "py_key v = v"


definition perf_duration :: "pydict \<Rightarrow> pyval" where
  "perf_duration record =
     dict_get record ''duration_seconds'' (dict_get record ''duration'' (PInt 1500))"

definition perf_tab_switches :: "pydict \<Rightarrow> pyval" where
  "perf_tab_switches record =
     dict_get record ''tabSwitchCount'' (dict_get record ''tab_switch_count'' (PInt 0))"

definition perf_completed :: "pydict \<Rightarrow> real" where
  "perf_completed record = (if truthy (dict_get record ''completed'' (PBool False)) then 1 else 0)"

definition perf_method :: "pydict \<Rightarrow> pyval" where
  "perf_method record =
     dict_get record ''method'' (dict_get record ''method_used'' (PStr ''pomodoro''))"

text \<open>The hour of a record; any exception of the \<^verbatim>\<open>try\<close> block gives 12.\<close>

definition perf_hour :: "pydict \<Rightarrow> int" where
  "perf_hour record =
     (case dict_get record ''started_at'' (PStr []) of
        PStr started_at \<Rightarrow>
          if length started_at > 13 then
            (case py_int (slice_11_13 started_at) of Some h \<Rightarrow> h | None \<Rightarrow> 12)
          else 12
      | _ \<Rightarrow> 12)"

text \<open>
  \<^verbatim>\<open>np.mean\<close> and \<^verbatim>\<open>np.std\<close> (the population deviation) of a list of numbers that is not
  empty.
\<close>

definition mean :: "real list \<Rightarrow> real" where
  "mean xs = sum_list xs / real (length xs)"

definition np_std :: "real list \<Rightarrow> real" where
  "np_std xs = sqrt (mean (map (\<lambda>x. (x - mean xs)\<^sup>2) xs))"

text \<open>
  \<^verbatim>\<open>np.mean\<close> and \<^verbatim>\<open>np.std\<close> on a list of raw values; the lists handed over are never
  empty (a user has at least 3 sessions, a history at least one).  NumPy turns a list of booleans,
  floats and integers of at most 64 bits into an array of machine numbers and averages
  them; an entry that is \<^verbatim>\<open>None\<close> or a string makes it raise \<^verbatim>\<open>TypeError\<close>.  A list that
  holds an integer beyond 64 bits becomes an array of Python objects, and what NumPy does
  with it (a number, \<^verbatim>\<open>OverflowError\<close>, \<^verbatim>\<open>TypeError\<close>) is not fixed here: NumPy is no part
  of the repository, and for these lists it is the parameter \<open>np\<close>.
\<close>

definition int64 :: "int \<Rightarrow> bool" where
  "int64 i = (- (2 ^ 63) \<le> i \<and> i < 2 ^ 63)"

fun np_number :: "pyval \<Rightarrow> real option" where
  "np_number (PBool b) = Some (if b then 1 else 0)"
| "np_number (PInt i) = (if int64 i then Some (real_of_int i) else None)"
| "np_number (PFloat r) = Some r"
| "np_number PNone = None"
| "np_number (PStr s) = None"

fun np_numbers :: "pyval list \<Rightarrow> real list option" where
  "np_numbers [] = Some []"
| "np_numbers (v # vs) =
     (case np_number v of
        None \<Rightarrow> None
      | Some x \<Rightarrow> map_option ((#) x) (np_numbers vs))"

fun wide_int :: "pyval \<Rightarrow> bool" where
  "wide_int (PInt i) = (\<not> int64 i)"
| "wide_int v = False"

record numpy =
  lib_mean :: "pyval list \<Rightarrow> pyerr + real"
  lib_std :: "pyval list \<Rightarrow> pyerr + real"

definition np_mean_list :: "numpy \<Rightarrow> pyval list \<Rightarrow> pyerr + real" where
  "np_mean_list np vs =
     (if list_ex wide_int vs then lib_mean np vs
      else case np_numbers vs of
             None \<Rightarrow> Inl TypeError
           | Some xs \<Rightarrow> Inr (mean xs))"

definition np_std_list :: "numpy \<Rightarrow> pyval list \<Rightarrow> pyerr + real" where
  "np_std_list np vs =
     (if list_ex wide_int vs then lib_std np vs
      else case np_numbers vs of
             None \<Rightarrow> Inl TypeError
           | Some xs \<Rightarrow> Inr (np_std xs))"


text \<open>
  The lists \<^verbatim>\<open>prepare_features\<close> keeps for each user (\<^verbatim>\<open>user_stats[user_id]\<close>), which are
  also the lists \<^verbatim>\<open>predict\<close> builds from the history of one user.
\<close>

record session_lists =
  st_sessions :: "pydict list"
  st_durations :: "pyval list"
  st_tab_switches :: "pyval list"
  st_completed :: "real list"
  st_methods :: "pyval list"
  st_hours :: "int list"





text \<open>
  The 8 aggregate features of the lists of one user.  The entries are evaluated in order,
  so the first call of NumPy that raises decides the exception.
\<close>

definition perf_feature :: "numpy \<Rightarrow> session_lists \<Rightarrow> pyerr + real list" where
  "perf_feature np st =
     (case np_mean_list np (st_durations st) of
        Inl e \<Rightarrow> Inl e
      | Inr mean_duration \<Rightarrow>
          (case (if length (st_durations st) > 1 then np_std_list np (st_durations st)
                 else Inr 0) of
             Inl e \<Rightarrow> Inl e
           | Inr std_duration \<Rightarrow>
               (case np_mean_list np (st_tab_switches st) of
                  Inl e \<Rightarrow> Inl e
                | Inr mean_switches \<Rightarrow>
                    Inr [mean_duration / 3600,
                         std_duration / 3600,
                         mean_switches,
                         mean (st_completed st),
                         real (length (remdups (map py_key (st_methods st)))) / 4,
                         if length (st_hours st) > 1
                         then np_std (map real_of_int (st_hours st)) else 0,
                         real (length (st_sessions st)) / 100,
                         if PStr ''pomodoro'' \<in> set (st_methods st) then 1 else 0])))"




text \<open>
  The fitted parts of the model are opaque: the scaler and the two regressors are
  functions on feature vectors.
\<close>

record estimators =
  scaler_transform :: "real list \<Rightarrow> real list"
  completion_predict :: "real list \<Rightarrow> real"
  score_predict :: "real list \<Rightarrow> real"

record performance_model =
  is_trained :: bool
  fitted :: "estimators option"

text \<open>\<^verbatim>\<open>PerformanceModel()\<close>: nothing fitted, not trained.\<close>

definition new_performance_model :: performance_model where
  "new_performance_model = \<lparr> is_trained = False, fitted = None \<rparr>"

text \<open>
  \<^verbatim>\<open>_load_model\<close>: \<open>disk\<close> is what the saved file holds, \<open>None\<close> when there is no file or
  loading it raises.  The result is whether the model was loaded, with the model after
  the call.
\<close>

definition load_model :: "estimators option \<Rightarrow> performance_model \<Rightarrow> bool \<times> performance_model" where
  "load_model disk model =
     (case disk of
        None \<Rightarrow> (False, model)
      | Some e \<Rightarrow> (True, \<lparr> is_trained = True, fitted = Some e \<rparr>))"

record prediction =
  predicted_completion_rate :: real
  predicted_quiz_score :: real
  risk_level :: string
  recommendations :: "string list"

definition default_prediction :: prediction where
  "default_prediction =
     \<lparr> predicted_completion_rate = 0.5,
       predicted_quiz_score = 65,
       risk_level = ''medium'',
       recommendations = [''Set a consistent study schedule'',
                          ''Start with shorter study sessions'',
                          ''Review material before quizzes'',
                          ''Minimize distractions during study''] \<rparr>"

text \<open>
  The hours \<^verbatim>\<open>_generate_recommendations\<close> averages: here the slice is parsed whatever
  the length of the timestamp, and a record whose slice is no number is passed over.
\<close>

definition recommendation_hour :: "pydict \<Rightarrow> int option" where
  "recommendation_hour d =
     (case dict_get d ''started_at'' (PStr []) of
        PStr started_at \<Rightarrow> py_int (slice_11_13 started_at)
      | _ \<Rightarrow> None)"

definition generate_recommendations ::
  "real \<Rightarrow> real \<Rightarrow> real \<Rightarrow> pyval list \<Rightarrow> pydict list \<Rightarrow> string list" where
  "generate_recommendations completion_rate quiz_score tab_switches methods user_data =
     (let r1 = (if completion_rate < 0.6
                then [''Try shorter study sessions to improve completion rate'',
                      ''Set specific goals before each study session''] else []);
          r2 = (if quiz_score < 70
                then [''Review material before taking quizzes'',
                      ''Take notes during video lessons''] else []);
          r3 = (if tab_switches > 5
                then [''Minimize distractions by closing unnecessary tabs'',
                      ''Use website blockers during study sessions''] else []);
          r4 = (if PStr ''pomodoro'' \<notin> set methods
                then [''Try the Pomodoro technique for better focus''] else []);
          hours = (if length user_data \<ge> 5
                   then map (real_of_int \<circ> the)
                          (filter (\<lambda>h. h \<noteq> None) (map recommendation_hour user_data))
                   else []);
          r5 = (if hours \<noteq> [] \<and> (mean hours < 8 \<or> mean hours > 22)
                then [''Consider studying during daytime hours for better retention'']
                else []);
          recommendations = r1 @ r2 @ r3 @ r4 @ r5;
          recommendations' = (if recommendations = []
                              then [''Keep up the good work!'',
                                    ''Try challenging yourself with advanced courses'']
                              else recommendations)
      in take 5 recommendations')"

text \<open>The lists \<^verbatim>\<open>predict\<close> builds from the history it is given.\<close>

definition predict_lists :: "pydict list \<Rightarrow> session_lists" where
  "predict_lists user_data =
     \<lparr> st_sessions = user_data,
       st_durations = map perf_duration user_data,
       st_tab_switches = map perf_tab_switches user_data,
       st_completed = map perf_completed user_data,
       st_methods = map perf_method user_data,
       st_hours = map perf_hour user_data \<rparr>"

text \<open>
  \<^verbatim>\<open>PerformanceModel.predict\<close>.  A model that counts as trained but holds no estimator
  fails with \<^verbatim>\<open>AttributeError\<close> at the first use of one.  \<^verbatim>\<open>_calculate_risk_level\<close> and
  \<^verbatim>\<open>_generate_recommendations\<close> use the list of tab switches only through its
  \<^verbatim>\<open>np.mean\<close>, which the feature vector has computed before: \<open>avg_switches\<close>.
\<close>

definition perf_predict ::
  "numpy \<Rightarrow> estimators option \<Rightarrow> performance_model \<Rightarrow> pydict list \<Rightarrow> pydict
     \<Rightarrow> pyerr + prediction" where
  "perf_predict np disk model user_data course_data =
     (let (loaded, model') = (if is_trained model then (True, model) else load_model disk model)
      in if \<not> is_trained model \<and> \<not> loaded then Inr default_prediction
         else if user_data = [] then Inr default_prediction
         else
           case perf_feature np (predict_lists user_data) of
             Inl e \<Rightarrow> Inl e
           | Inr feature \<Rightarrow>
               (case fitted model' of
                  None \<Rightarrow> Inl AttributeError
                | Some e \<Rightarrow>
                    let feature_scaled = scaler_transform e feature;
                        completion_rate = max 0 (min 1 (completion_predict e feature_scaled));
                        quiz_score = max 0 (min 100 (score_predict e feature_scaled))
                    in case np_mean_list np (map perf_tab_switches user_data) of
                         Inl e \<Rightarrow> Inl e
                       | Inr avg_switches \<Rightarrow>
                           Inr \<lparr> predicted_completion_rate = completion_rate,
                                 predicted_quiz_score = quiz_score,
                                 risk_level = risk_name
                                   (calculate_risk_level completion_rate quiz_score
                                      [avg_switches]),
                                 recommendations =
                                   generate_recommendations completion_rate quiz_score
                                     avg_switches (map perf_method user_data) user_data \<rparr>))"

text \<open>
  The handler \<^verbatim>\<open>predict_performance\<close> of \<^verbatim>\<open>main.py\<close>: \<open>user_data\<close> and \<open>course_data\<close> are
  what the data service returns for the request.  An empty history is answered by the
  handler itself; otherwise a fresh model is loaded and asked, and an exception leaves as
  a 500.
\<close>

definition predict_performance ::
  "numpy \<Rightarrow> estimators option \<Rightarrow> pydict list \<Rightarrow> pydict \<Rightarrow> http_error + prediction" where
  "predict_performance np disk user_data course_data =
     (if user_data = [] then
        Inr \<lparr> predicted_completion_rate = 0.5,
              predicted_quiz_score = 65,
              risk_level = ''medium'',
              recommendations = [''Set a consistent study schedule'',
                                 ''Start with shorter study sessions'',
                                 ''Review material before quizzes''] \<rparr>
      else
        case perf_predict np disk (snd (load_model disk new_performance_model))
               user_data course_data of
          Inl e \<Rightarrow> Inl (HTTPException 500)
        | Inr p \<Rightarrow> Inr p)"




section \<open>Recommendation model (\<^verbatim>\<open>models/recommendation_model.py\<close>)\<close>

text \<open>
  The two lookup structures that \<^verbatim>\<open>train\<close> builds are dictionaries; they are kept as
  association lists in insertion order, the order in which Python iterates over them:
  \<^verbatim>\<open>user_profiles\<close> maps a user to the dictionary from course to interaction score,
  \<^verbatim>\<open>course_profiles\<close> maps a course to its \<^verbatim>\<open>total\<close> and \<^verbatim>\<open>completed\<close> counts.
\<close>

type_synonym course_scores = "(pyval \<times> real) list"
type_synonym user_profiles = "(pyval \<times> course_scores) list"
type_synonym course_profiles = "(pyval \<times> nat \<times> nat) list"

definition rec_user_id :: "pydict \<Rightarrow> pyval" where
  "rec_user_id record = dict_get record ''userId'' (dict_get record ''user_id'' PNone)"

definition rec_course_id :: "pydict \<Rightarrow> pyval" where
  "rec_course_id record = dict_get record ''courseId'' (dict_get record ''course_id'' PNone)"

definition rec_completed :: "pydict \<Rightarrow> bool" where
  "rec_completed record = truthy (dict_get record ''completed'' (PBool False))"

text \<open>\<^verbatim>\<open>score = 1.0 if completed else 0.5\<close>.\<close>

definition interaction_score :: "pydict \<Rightarrow> real" where
  "interaction_score record = (if rec_completed record then 1 else 0.5)"

text \<open>\<^verbatim>\<open>courses[course_id] = max(courses.get(course_id, 0), score)\<close>.\<close>

definition set_score :: "course_scores \<Rightarrow> pyval \<Rightarrow> real \<Rightarrow> course_scores" where
  "set_score courses course_id score =
     (if course_id \<in> fst ` set courses
      then map (\<lambda>(c, v). if c = course_id then (c, max v score) else (c, v)) courses
      else courses @ [(course_id, max 0 score)])"

definition update_user :: "user_profiles \<Rightarrow> pyval \<Rightarrow> pyval \<Rightarrow> real \<Rightarrow> user_profiles" where
  "update_user matrix user_id course_id score =
     (let matrix' = (if user_id \<notin> fst ` set matrix then matrix @ [(user_id, [])] else matrix)
      in map (\<lambda>(u, courses). if u = user_id then (u, set_score courses course_id score)
                               else (u, courses)) matrix')"

definition update_course :: "course_profiles \<Rightarrow> pyval \<Rightarrow> bool \<Rightarrow> course_profiles" where
  "update_course completions course_id completed =
     (let completions' = (if course_id \<notin> fst ` set completions
                          then completions @ [(course_id, 0, 0)] else completions)
      in map (\<lambda>(c, total, compl).
                if c = course_id then (c, total + 1, if completed then compl + 1 else compl)
                else (c, total, compl)) completions')"

text \<open>One pass of the loop of \<^verbatim>\<open>train\<close>: a record without a user or a course is skipped.\<close>

definition train_step ::
  "user_profiles \<times> course_profiles \<Rightarrow> pydict \<Rightarrow> user_profiles \<times> course_profiles" where
  "train_step state record =
     (let user_id = rec_user_id record;
          course_id = rec_course_id record
      in if \<not> truthy user_id \<or> \<not> truthy course_id then state
         else (update_user (fst state) (py_key user_id) (py_key course_id)
                 (interaction_score record),
               update_course (snd state) (py_key course_id) (rec_completed record)))"

definition train_profiles :: "pydict list \<Rightarrow> user_profiles \<times> course_profiles" where
  "train_profiles data = foldl train_step ([], []) data"

text \<open>The metrics \<^verbatim>\<open>train\<close> returns, computed from the course profiles.\<close>

definition train_metrics :: "pydict list \<Rightarrow> course_profiles \<Rightarrow> metrics" where
  "train_metrics data completions =
     (let completion_rates =
            map (\<lambda>(c, total, compl). real compl / real total)
              (filter (\<lambda>(c, total, compl). total > 0) completions);
          avg_completion = (if completion_rates \<noteq> [] then mean completion_rates else 0.5)
      in [(''accuracy'', avg_completion),
          (''precision'', avg_completion),
          (''recall'', real (length completions) / real (max (length data) 1)),
          (''f1Score'', 2 * avg_completion * avg_completion
                          / (avg_completion + avg_completion + 0.001))])"

record recommendation_model =
  user_profiles :: user_profiles
  course_profiles :: course_profiles
  rec_is_trained :: bool

definition rec_train :: "pydict list \<Rightarrow> recommendation_model \<times> metrics" where
  "rec_train data =
     (let (matrix, completions) = train_profiles data
      in (\<lparr> user_profiles = matrix, course_profiles = completions, rec_is_trained = True \<rparr>,
          train_metrics data completions))"

text \<open>
  The user handed to the scorer: the scalar entries of the dictionary (\<^verbatim>\<open>id\<close>,
  \<^verbatim>\<open>user_id\<close>) and its \<^verbatim>\<open>preferences\<close> dictionary, which holds scalar entries
  (\<^verbatim>\<open>skill_level\<close>) and the \<^verbatim>\<open>interests\<close>: absent, null, or a list.
\<close>

datatype interests = NoInterests | NullInterests | Interests "pyval list"

record user_prefs =
  pref_fields :: pydict
  pref_interests :: interests

record user_data =
  ud_fields :: pydict
  ud_preferences :: "user_prefs option"

text \<open>\<^verbatim>\<open>user_data.get('preferences', {})\<close>.\<close>

definition get_preferences :: "user_data \<Rightarrow> user_prefs" where
  "get_preferences user =
     (case ud_preferences user of
        None \<Rightarrow> \<lparr> pref_fields = Map.empty, pref_interests = NoInterests \<rparr>
      | Some p \<Rightarrow> p)"

text \<open>\<^verbatim>\<open>str.lower\<close> on the characters of a HOL string (code points below 256).\<close>

definition py_lower_char :: "char \<Rightarrow> char" where
  "py_lower_char c =
     (let n = (of_char c :: nat)
      in if (65 \<le> n \<and> n \<le> 90) \<or> (192 \<le> n \<and> n \<le> 222 \<and> n \<noteq> 215)
         then char_of (n + 32) else c)"

definition py_lower :: "pyval \<Rightarrow> string option" where
  "py_lower v = (case v of PStr s \<Rightarrow> Some (map py_lower_char s) | _ \<Rightarrow> None)"

text \<open>The table \<^verbatim>\<open>level_match\<close> and its lookup with default 0.5.\<close>

definition level_match :: "((string \<times> string) \<times> real) list" where
  "level_match =
     [((''beginner'', ''beginner''), 1.0),
      ((''beginner'', ''intermediate''), 0.7),
      ((''beginner'', ''advanced''), 0.3),
      ((''intermediate'', ''beginner''), 0.6),
      ((''intermediate'', ''intermediate''), 1.0),
      ((''intermediate'', ''advanced''), 0.8),
      ((''advanced'', ''beginner''), 0.3),
      ((''advanced'', ''intermediate''), 0.7),
      ((''advanced'', ''advanced''), 1.0)]"

definition level_match_get :: "pyval \<Rightarrow> pyval \<Rightarrow> real" where
  "level_match_get user_level course_level =
     (case (user_level, course_level) of
        (PStr u, PStr c) \<Rightarrow> (case map_of level_match (u, c) of Some m \<Rightarrow> m | None \<Rightarrow> 0.5)
      | _ \<Rightarrow> 0.5)"

text \<open>\<^verbatim>\<open>_calculate_collaborative_score\<close>.\<close>

definition scorer_user_id :: "user_data \<Rightarrow> pyval" where
  "scorer_user_id user = dict_get (ud_fields user) ''id'' (dict_get (ud_fields user) ''user_id'' PNone)"

definition similar_scores :: "pyval \<Rightarrow> course_scores \<Rightarrow> pyval \<Rightarrow> user_profiles \<Rightarrow> real list" where
  "similar_scores user_id mine course_id profiles =
     concat (map (\<lambda>(other_id, other_courses).
                    if other_id = user_id then []
                    else
                      let user_courses = set (map fst mine);
                          other_course_set = set (map fst other_courses);
                          overlap = card (user_courses \<inter> other_course_set)
                      in if overlap > 0 \<and> course_id \<in> other_course_set
                         then [the (map_of other_courses course_id)
                                 * (real overlap / real (card (user_courses \<union> other_course_set)))]
                         else [])
               profiles)"

definition calculate_collaborative_score :: "user_data \<Rightarrow> pyval \<Rightarrow> user_profiles \<Rightarrow> real" where
  "calculate_collaborative_score user course_id profiles =
     (let user_id = py_key (scorer_user_id user)
      in case map_of profiles user_id of
           None \<Rightarrow> 0.5
         | Some mine \<Rightarrow>
             let scores = similar_scores user_id mine course_id profiles
             in if scores \<noteq> [] then mean scores else 0.5)"

text \<open>The four weighted signals of \<^verbatim>\<open>_calculate_course_score\<close>, in the order they are added.\<close>

definition popularity_term :: "pyval \<Rightarrow> course_profiles \<Rightarrow> real" where
  "popularity_term course_id profiles =
     (case map_of profiles course_id of
        None \<Rightarrow> 0
      | Some (n_total, n_completed) \<Rightarrow>
          if n_total > 0 then real n_completed / real n_total * 0.3 else 0)"

definition difficulty_term :: "user_data \<Rightarrow> pydict \<Rightarrow> real" where
  "difficulty_term user course =
     level_match_get (dict_get (pref_fields (get_preferences user)) ''skill_level'' (PStr ''beginner''))
       (dict_get course ''difficulty'' (PStr ''beginner'')) * 0.2"

text \<open>
  The category signal: \<^verbatim>\<open>set(None)\<close> raises \<^verbatim>\<open>TypeError\<close>, \<^verbatim>\<open>lower\<close> of a category or of an
  interest that is no string raises \<^verbatim>\<open>AttributeError\<close>.
\<close>

definition interest_term :: "user_data \<Rightarrow> pydict \<Rightarrow> pyerr + real" where
  "interest_term user course =
     (case pref_interests (get_preferences user) of
        NullInterests \<Rightarrow> Inl TypeError
      | NoInterests \<Rightarrow>
          (case py_lower (dict_get course ''category'' (PStr [])) of
             None \<Rightarrow> Inl AttributeError
           | Some category \<Rightarrow> Inr 0)
      | Interests user_interests \<Rightarrow>
          (case py_lower (dict_get course ''category'' (PStr [])) of
             None \<Rightarrow> Inl AttributeError
           | Some category \<Rightarrow>
               if \<exists>i \<in> set user_interests. py_lower i = None then Inl AttributeError
               else Inr (if Some category \<in> py_lower ` set user_interests then 0.3 else 0)))"

definition collaborative_term :: "user_data \<Rightarrow> pyval \<Rightarrow> user_profiles \<Rightarrow> real" where
  "collaborative_term user course_id profiles =
     calculate_collaborative_score user course_id profiles * 0.2"

definition calculate_course_score ::
  "user_data \<Rightarrow> pydict \<Rightarrow> user_profiles \<Rightarrow> course_profiles \<Rightarrow> pyerr + real" where
  "calculate_course_score user course u_profiles c_profiles =
     (let course_id = py_key (dict_get course ''id'' PNone)
      in case interest_term user course of
           Inl e \<Rightarrow> Inl e
         | Inr interest \<Rightarrow>
             Inr (min 1 (popularity_term course_id c_profiles
                         + difficulty_term user course
                         + interest
                         + collaborative_term user course_id u_profiles)))"

text \<open>
  What the stored interaction scores are measured against: the observations of a user
  and course pair among the records, and the score stored for the pair.
\<close>

definition observations :: "pydict list \<Rightarrow> pyval \<Rightarrow> pyval \<Rightarrow> pydict list" where
  "observations data u c =
     filter (\<lambda>r. truthy (rec_user_id r) \<and> truthy (rec_course_id r)
                 \<and> py_key (rec_user_id r) = u \<and> py_key (rec_course_id r) = c) data"

definition stored_score :: "user_profiles \<Rightarrow> pyval \<Rightarrow> pyval \<Rightarrow> real option" where
  "stored_score profiles u c =
     (case map_of profiles u of None \<Rightarrow> None | Some courses \<Rightarrow> map_of courses c)"

section \<open>Properties\<close>

subsection \<open>Risk level\<close>

lemma risk_score_antimono:
  assumes "c' \<le> c" and "q' \<le> q"
  shows "risk_score c q ts \<le> risk_score c' q' ts"
proof -
  have a: "(if c < 0.5 then 2 else if c < 0.7 then 1 else (0::nat))
         \<le> (if c' < 0.5 then 2 else if c' < 0.7 then 1 else 0)"
    using assms(1) by auto
  have b: "(if q < 60 then 2 else if q < 75 then 1 else (0::nat))
         \<le> (if q' < 60 then 2 else if q' < 75 then 1 else 0)"
    using assms(2) by auto
  show ?thesis
    unfolding risk_score_def using a b by (simp add: add_mono)
qed

text \<open>
  C6: with the tab-switch list held fixed, lowering (or keeping) the completion rate and
  the quiz score never lowers the tier in the order low < medium < high, and the tier is
  the one of the accumulation rule: +2 if completion < 0.5 else +1 if < 0.7; +2 if score
  < 60 else +1 if < 75; +1 if the mean of the tab switches exceeds 5; a total of at
  least 4 is high, at least 2 is medium, anything else is low.
\<close>

theorem risk_level_monotone:
  assumes "c' \<le> c" and "q' \<le> q"
  shows "risk_rank (calculate_risk_level c q ts) \<le> risk_rank (calculate_risk_level c' q' ts)
       \<and> calculate_risk_level c q ts =
           (let total = (if c < 0.5 then 2 else if c < 0.7 then 1 else 0)
                      + (if q < 60 then 2 else if q < 75 then 1 else 0)
                      + (if ts \<noteq> [] \<and> sum_list ts / real (length ts) > 5 then 1 else (0::nat))
            in if total \<ge> 4 then High else if total \<ge> 2 then Medium else Low)"
proof
  have "risk_score c q ts \<le> risk_score c' q' ts"
    using assms by (rule risk_score_antimono)
  then show "risk_rank (calculate_risk_level c q ts) \<le> risk_rank (calculate_risk_level c' q' ts)"
    by (simp add: calculate_risk_level_def Let_def)
next
  have "risk_score c q ts =
          (if c < 0.5 then 2 else if c < 0.7 then 1 else 0)
        + (if q < 60 then 2 else if q < 75 then 1 else 0)
        + (if ts \<noteq> [] \<and> sum_list ts / real (length ts) > 5 then 1 else (0::nat))"
    by (simp add: risk_score_def np_mean_def)
  then show "calculate_risk_level c q ts =
           (let total = (if c < 0.5 then 2 else if c < 0.7 then 1 else 0)
                      + (if q < 60 then 2 else if q < 75 then 1 else 0)
                      + (if ts \<noteq> [] \<and> sum_list ts / real (length ts) > 5 then 1 else (0::nat))
            in if total \<ge> 4 then High else if total \<ge> 2 then Medium else Low)"
    by (simp add: calculate_risk_level_def Let_def)
qed

theorem risk_level_monotone_witness:
  "risk_rank (calculate_risk_level 0.8 80 [6, 7]) \<le> risk_rank (calculate_risk_level 0.4 50 [6, 7])
   \<and> calculate_risk_level 0.8 80 [6, 7] = Low
   \<and> calculate_risk_level 0.4 50 [6, 7] = High"
proof -
  have h: "(0.4::real) \<le> 0.8" "(50::real) \<le> 80" by simp_all
  have "calculate_risk_level 0.4 50 [6, 7] = High"
    by (simp add: calculate_risk_level_def risk_score_def np_mean_def)
  then show ?thesis
    using risk_level_monotone [OF h, of "[6, 7]"] by (simp add: Let_def)
qed

subsection \<open>Minimum number of training records\<close>

text \<open>
  C1: for a training request of a known model type, a fetched list of fewer than 50
  records gives the unsuccessful response (success false, no metrics) whose
  training_samples is the number of records fetched, and nothing but the fetch has
  happened: no model is trained or saved and no metrics are saved.  With 49 records the
  response is unsuccessful with training_samples 49; with 50 or more the handler goes on
  to train the model on the fetched records.
\<close>

theorem train_model_minimum_samples:
  assumes "req_model_type request \<in> set MODEL_TYPES"
  shows "(length (fetch (req_model_type request) (req_user_id request)) < 50 \<longrightarrow>
            (\<exists>r. train_model fetch model_train now request =
                    (Inr r, [FetchTrainingData (req_model_type request) (req_user_id request)])
                 \<and> \<not> success r \<and> metrics r = []
                 \<and> training_samples r = length (fetch (req_model_type request) (req_user_id request))))
       \<and> (length (fetch (req_model_type request) (req_user_id request)) = 49 \<longrightarrow>
            (\<exists>r. fst (train_model fetch model_train now request) = Inr r
                 \<and> \<not> success r \<and> training_samples r = 49))
       \<and> (length (fetch (req_model_type request) (req_user_id request)) \<ge> 50 \<longrightarrow>
            take 2 (snd (train_model fetch model_train now request)) =
              [FetchTrainingData (req_model_type request) (req_user_id request),
               ModelTrain (req_model_type request)
                 (fetch (req_model_type request) (req_user_id request))]
          \<and> (\<forall>m. model_train (req_model_type request)
                     (fetch (req_model_type request) (req_user_id request)) = Inr m \<longrightarrow>
                 (\<exists>r. fst (train_model fetch model_train now request) = Inr r
                      \<and> success r \<and> metrics r = m
                      \<and> training_samples r =
                          length (fetch (req_model_type request) (req_user_id request)))))"
  using assms
  by (auto simp: train_model_def training_service_train_def Let_def split: sum.splits)

theorem train_model_minimum_samples_witness:
  "(\<exists>r. train_model (\<lambda>mt u. replicate 49 Map.empty) (\<lambda>mt d. Inr [(''accuracy'', 1)]) ''t''
          \<lparr> req_model_type = ''scheduling'', req_user_id = None, force_retrain = False \<rparr>
        = (Inr r, [FetchTrainingData ''scheduling'' None])
      \<and> \<not> success r \<and> training_samples r = 49)
   \<and> (\<exists>r. fst (train_model (\<lambda>mt u. replicate 50 Map.empty) (\<lambda>mt d. Inr [(''accuracy'', 1)]) ''t''
          \<lparr> req_model_type = ''scheduling'', req_user_id = None, force_retrain = False \<rparr>) = Inr r
      \<and> success r \<and> training_samples r = 50)"
proof -
  have h: "req_model_type \<lparr> req_model_type = ''scheduling'', req_user_id = None, force_retrain = False \<rparr>
             \<in> set MODEL_TYPES"
    by (simp add: MODEL_TYPES_def)
  show ?thesis
    using train_model_minimum_samples [OF h, of "\<lambda>mt u. replicate 49 Map.empty" "\<lambda>mt d. Inr [(''accuracy'', 1)]" "''t''"]
          train_model_minimum_samples [OF h, of "\<lambda>mt u. replicate 50 Map.empty" "\<lambda>mt d. Inr [(''accuracy'', 1)]" "''t''"]
    by simp blast
qed

subsection \<open>Label encoding\<close>

lemma encoder_classes_eq: "encoder_classes = [''52_17'', ''blitz'', ''flowtime'', ''pomodoro'']"
  by (simp add: encoder_classes_def label_encoder_fit_def METHODS_def)

lemma index_of_nth: "distinct xs \<Longrightarrow> i < length xs \<Longrightarrow> index_of xs (xs ! i) = Some i"
proof (induction xs arbitrary: i)
  case Nil
  then show ?case by simp
next
  case (Cons x xs)
  show ?case
  proof (cases i)
    case 0
    then show ?thesis by simp
  next
    case (Suc j)
    with Cons.prems have "xs ! j \<noteq> x" "j < length xs" "distinct xs" by auto
    with Cons.IH [of j] Suc show ?thesis by simp
  qed
qed

lemma index_of_mem: "x \<in> set xs \<Longrightarrow> \<exists>i. index_of xs x = Some i \<and> i < length xs \<and> xs ! i = x"
  by (induction xs) auto

lemma fit_roundtrip_index:
  assumes "i < length (label_encoder_fit ys)"
  shows "label_inverse_transform (label_encoder_fit ys) [i] = Inr [label_encoder_fit ys ! i]
       \<and> label_encoder_fit ys ! i \<in> set ys
       \<and> label_transform (label_encoder_fit ys) [label_encoder_fit ys ! i] = Inr [i]"
proof -
  let ?cs = "label_encoder_fit ys"
  have d: "distinct ?cs" by (simp add: label_encoder_fit_def)
  have m: "?cs ! i \<in> set ?cs" using assms by simp
  then have "?cs ! i \<in> set ys" by (simp add: label_encoder_fit_def)
  moreover have "index_of ?cs (?cs ! i) = Some i" using d assms by (rule index_of_nth)
  ultimately show ?thesis
    using assms m by (simp add: label_inverse_transform_def label_transform_def)
qed

lemma fit_roundtrip_label:
  assumes "m \<in> set ys"
  shows "\<exists>i. label_transform (label_encoder_fit ys) [m] = Inr [i]
           \<and> label_inverse_transform (label_encoder_fit ys) [i] = Inr [m]"
proof -
  let ?cs = "label_encoder_fit ys"
  have m: "m \<in> set ?cs" using assms by (simp add: label_encoder_fit_def)
  from index_of_mem [OF m] obtain i
    where i: "index_of ?cs m = Some i" "i < length ?cs" "?cs ! i = m"
    by (elim exE conjE)
  have "label_transform ?cs [m] = Inr [i]"
    using m i(1) by (simp add: label_transform_def)
  moreover have "label_inverse_transform ?cs [i] = Inr [m]"
    using i(2,3) by (simp add: label_inverse_transform_def)
  ultimately show ?thesis by (intro exI conjI)
qed

text \<open>
  C10: the label encoder fitted on the four methods at construction round-trips.  Every
  code below 4 decodes to a method of the enumeration whose encoding is that code again,
  and every method of the enumeration encodes to a code that decodes to the method;
  that code is also the label \<^verbatim>\<open>prepare_labels\<close> gives a record using the method.
\<close>
theorem label_encoding_roundtrip:
  "(\<forall>i < length METHODS.
      \<exists>m. label_inverse_transform encoder_classes [i] = Inr [m] \<and> m \<in> set METHODS
         \<and> label_transform encoder_classes [m] = Inr [i])
   \<and> (\<forall>m \<in> set METHODS.
        \<exists>i. label_transform encoder_classes [m] = Inr [i]
           \<and> label_inverse_transform encoder_classes [i] = Inr [m]
           \<and> (\<forall>record. record ''method_used'' = Some (PStr m) \<longrightarrow> prepare_labels [record] = Inr [i]))"
proof (intro conjI allI impI ballI)
  fix i assume "i < length METHODS"
  moreover have "length encoder_classes = length METHODS"
    by (simp add: encoder_classes_eq METHODS_def)
  ultimately have "i < length (label_encoder_fit METHODS)"
    by (simp add: encoder_classes_def)
  from fit_roundtrip_index [OF this]
  show "\<exists>m. label_inverse_transform encoder_classes [i] = Inr [m] \<and> m \<in> set METHODS
         \<and> label_transform encoder_classes [m] = Inr [i]"
    unfolding encoder_classes_def by blast
next
  fix m assume m: "m \<in> set METHODS"
  from fit_roundtrip_label [OF this] obtain i where
    i: "label_transform encoder_classes [m] = Inr [i]"
       "label_inverse_transform encoder_classes [i] = Inr [m]"
    unfolding encoder_classes_def by blast
  have "prepare_labels [r] = Inr [i]" if "r ''method_used'' = Some (PStr m)" for r
    using that m i(1) by (simp add: prepare_labels_def label_method_def dict_get_def)
  with i show "\<exists>i. label_transform encoder_classes [m] = Inr [i]
           \<and> label_inverse_transform encoder_classes [i] = Inr [m]
           \<and> (\<forall>record. record ''method_used'' = Some (PStr m) \<longrightarrow> prepare_labels [record] = Inr [i])"
    by blast
qed

theorem label_encoding_roundtrip_witness:
  "label_inverse_transform encoder_classes [2] = Inr [''flowtime'']
   \<and> ''flowtime'' \<in> set METHODS \<and> (2::nat) < length METHODS
   \<and> label_transform encoder_classes [''flowtime''] = Inr [2]
   \<and> prepare_labels [[''method_used'' \<mapsto> PStr ''flowtime'']] = Inr [2]"
proof -
  have m: "''flowtime'' \<in> set METHODS" by (simp add: METHODS_def)
  have t: "label_transform encoder_classes [''flowtime''] = Inr [2]"
    by (simp add: encoder_classes_eq label_transform_def)
  from bspec [OF conjunct2 [OF label_encoding_roundtrip] m] obtain i where
    i: "label_transform encoder_classes [''flowtime''] = Inr [i]"
       "label_inverse_transform encoder_classes [i] = Inr [''flowtime'']"
       "\<forall>r. r ''method_used'' = Some (PStr ''flowtime'') \<longrightarrow> prepare_labels [r] = Inr [i]"
    by blast
  from i(1) t have "i = 2" by simp
  with i(2) have a: "label_inverse_transform encoder_classes [2] = Inr [''flowtime'']" by simp
  from i(3) \<open>i = 2\<close>
  have b: "prepare_labels [[''method_used'' \<mapsto> PStr ''flowtime'']] = Inr [2]" by simp
  from m t a b show ?thesis by (simp add: METHODS_def)
qed

subsection \<open>Timestamp defaults of the scheduling features\<close>

lemma sched_hour_missing: "record ''started_at'' = None \<Longrightarrow> sched_hour record = 12"
  by (simp add: sched_hour_def dict_get_def)

lemma sched_day_of_week_missing:
  "record ''started_at'' = None \<Longrightarrow> sched_day_of_week lib record = 0"
  by (simp add: sched_day_of_week_def dict_get_def fromisoformat_weekday_def replace_Z_def)

lemma sched_hour_short:
  "record ''started_at'' = Some (PStr s) \<Longrightarrow> length s < 14 \<Longrightarrow> sched_hour record = 12"
  by (simp add: sched_hour_def dict_get_def)

lemma sched_feature_time_entries:
  assumes "sched_feature lib record = Inr f"
  shows "f ! 0 = real_of_int (sched_hour record) / 24"
    and "f ! 1 = real (sched_day_of_week lib record) / 7"
  using assms
  by (auto simp: sched_feature_def Let_def split: option.splits sum.splits)

text \<open>
  C8: for a record without the timestamp field the scheduling feature builder derives
  hour 12 and weekday 0, and these are the first two entries (12/24 and 0/7) of the
  record's feature vector whenever one is built; for a record whose timestamp is a string
  of fewer than 14 characters it derives hour 12.
\<close>
theorem sched_timestamp_defaults:
  "(record ''started_at'' = None \<longrightarrow>
      sched_hour record = 12 \<and> sched_day_of_week lib record = 0
    \<and> (\<forall>f. sched_feature lib record = Inr f \<longrightarrow> f ! 0 = 12 / 24 \<and> f ! 1 = 0 / 7))
   \<and> (\<forall>s. record ''started_at'' = Some (PStr s) \<and> length s < 14 \<longrightarrow>
        sched_hour record = 12
      \<and> (\<forall>f. sched_feature lib record = Inr f \<longrightarrow> f ! 0 = 12 / 24))"
proof (intro conjI impI allI)
  assume a: "record ''started_at'' = None"
  show "sched_hour record = 12" using a by (rule sched_hour_missing)
  show "sched_day_of_week lib record = 0" using a by (rule sched_day_of_week_missing)
  fix f assume f: "sched_feature lib record = Inr f"
  show "f ! 0 = 12 / 24"
    using sched_feature_time_entries(1) [OF f] a by (simp add: sched_hour_missing)
  show "f ! 1 = 0 / 7"
    using sched_feature_time_entries(2) [OF f] a by (simp add: sched_day_of_week_missing)
next
  fix s assume a: "record ''started_at'' = Some (PStr s) \<and> length s < 14"
  then show h: "sched_hour record = 12" by (simp add: sched_hour_short)
  fix f assume f: "sched_feature lib record = Inr f"
  show "f ! 0 = 12 / 24"
    using sched_feature_time_entries(1) [OF f] h by simp
qed

theorem sched_timestamp_defaults_witness:
  "sched_hour Map.empty = 12 \<and> sched_day_of_week Map.empty Map.empty = 0
   \<and> sched_feature Map.empty Map.empty = Inr [12 / 24, 0 / 7, 0, 1500 / 7200, 0, 0]
   \<and> length ''2024-01-01T10'' < 14
   \<and> sched_hour [''started_at'' \<mapsto> PStr ''2024-01-01T10''] = 12"
proof -
  have a: "sched_hour Map.empty = 12 \<and> sched_day_of_week Map.empty Map.empty = 0"
    using sched_timestamp_defaults [of Map.empty Map.empty] by simp
  have b: "sched_hour [''started_at'' \<mapsto> PStr ''2024-01-01T10''] = 12"
    using sched_timestamp_defaults [of "[''started_at'' \<mapsto> PStr ''2024-01-01T10'']" Map.empty]
    by simp
  have c: "sched_feature Map.empty Map.empty = Inr [12 / 24, 0 / 7, 0, 1500 / 7200, 0, 0]"
    using a by (simp add: sched_feature_def dict_get_def METHODS_def Let_def float_limit_def)
  from a b c show ?thesis by simp
qed

subsection \<open>A method outside the enumeration\<close>

text \<open>
  C4: scheduling feature and label extraction is claimed never to raise, a method outside
  the enumeration being resolved to pomodoro.  \<^verbatim>\<open>prepare_labels\<close> does so (label 3 is
  pomodoro), but \<^verbatim>\<open>prepare_features\<close> raises the \<^verbatim>\<open>ValueError\<close> of \<^verbatim>\<open>METHODS.index\<close> on the
  same record.
\<close>
theorem prepare_features_unknown_method:
  "prepare_features Map.empty [[''method_used'' \<mapsto> PStr ''deep_work'']] = Inl ValueError
   \<and> prepare_labels [[''method_used'' \<mapsto> PStr ''deep_work'']] = Inr [3]"
  by (simp add: sched_feature_def dict_get_def METHODS_def prepare_labels_def label_method_def
      encoder_classes_eq label_transform_def Let_def)

subsection \<open>Optimal hours\<close>

lemma map_of_bump:
  "map_of (map (\<lambda>(k, t, d). if k = h then (k, f t d) else (k, t, d)) st) k' =
     (if k' = h then map_option (\<lambda>(t, d). f t d) (map_of st h) else map_of st k')"
  by (induction st) (auto split: prod.splits)

lemma keys_bump:
  "map fst (map (\<lambda>(k, t, d). if k = h then (k, f t d) else (k, t, d)) st) = map fst st"
  by (induction st) (auto split: prod.splits)

lemma add_session_keys:
  "map fst (add_session st h c) = (if h \<in> set (map fst st) then map fst st else map fst st @ [h])"
proof -
  have "map fst (map (\<lambda>(k, t, d). if k = h then (k, (t + 1, if c then d + 1 else d)) else (k, t, d)) st')
          = map fst st'" for st' :: hour_stats
    by (rule keys_bump)
  then show ?thesis
    by (simp add: add_session_def Let_def)
qed

lemma add_session_distinct:
  "distinct (map fst st) \<Longrightarrow> distinct (map fst (add_session st h c))"
  by (simp add: add_session_keys)

lemma add_session_lookup:
  "map_of (add_session st h c) k =
     (if k = h then
        (case map_of st h of
           None \<Rightarrow> Some (1, if c then 1 else 0)
         | Some (t, d) \<Rightarrow> Some (t + 1, if c then d + 1 else d))
      else map_of st k)"
proof -
  have b: "map_of (map (\<lambda>(k, t, d). if k = h then (k, (t + 1, if c then d + 1 else d)) else (k, t, d)) st') k
          = (if k = h then map_option (\<lambda>(t, d). (t + 1, if c then d + 1 else d)) (map_of st' h)
             else map_of st' k)" for st' :: hour_stats
    by (rule map_of_bump)
  show ?thesis
  proof (cases "h \<in> fst ` set st")
    case True
    then obtain v where "map_of st h = Some v"
      by (metis domD dom_map_of_conv_image_fst)
    with True b [of st] show ?thesis
      by (auto simp: add_session_def Let_def split: prod.splits)
  next
    case False
    then have n: "map_of st h = None" by (simp add: map_of_eq_None_iff)
    from False have "add_session st h c =
        map (\<lambda>(k, t, d). if k = h then (k, (t + 1, if c then d + 1 else d)) else (k, t, d))
          (st @ [(h, 0, 0)])"
      by (simp add: add_session_def Let_def)
    then show ?thesis
      using b [of "st @ [(h, 0, 0)]"] n by (auto simp: map_add_def split: option.splits)
  qed
qed

lemma collect_hour_stats_snoc:
  "collect_hour_stats (data @ [r]) =
     (case record_hour r of
        None \<Rightarrow> collect_hour_stats data
      | Some hour \<Rightarrow> add_session (collect_hour_stats data) hour (record_completed r))"
  by (simp add: collect_hour_stats_def split: option.splits)

lemma collect_hour_stats_distinct: "distinct (map fst (collect_hour_stats data))"
proof (induction data rule: rev_induct)
  case Nil
  then show ?case by (simp add: collect_hour_stats_def)
next
  case (snoc r data)
  then show ?case
    by (simp add: collect_hour_stats_snoc add_session_distinct split: option.splits)
qed

lemma collect_hour_stats_lookup:
  "map_of (collect_hour_stats data) h =
     (if sessions_at data h = 0 then None
      else Some (sessions_at data h, completed_at data h))"
proof (induction data rule: rev_induct)
  case Nil
  then show ?case by (simp add: collect_hour_stats_def sessions_at_def)
next
  case (snoc r data)
  show ?case
  proof (cases "record_hour r")
    case None
    with snoc show ?thesis
      by (simp add: collect_hour_stats_snoc sessions_at_def completed_at_def)
  next
    case (Some k)
    with snoc show ?thesis
      by (auto simp: collect_hour_stats_snoc add_session_lookup sessions_at_def completed_at_def
          filter_empty_conv)
  qed
qed

lemma collect_hour_stats_mem:
  "(h, t, d) \<in> set (collect_hour_stats data) \<longleftrightarrow>
     sessions_at data h > 0 \<and> t = sessions_at data h \<and> d = completed_at data h"
proof -
  have "(h, t, d) \<in> set (collect_hour_stats data) \<longleftrightarrow>
          map_of (collect_hour_stats data) h = Some (t, d)"
    using collect_hour_stats_distinct [of data] by simp
  then show ?thesis
    by (auto simp: collect_hour_stats_lookup)
qed

lemma hour_rates_mem:
  "(h, x) \<in> set (hour_rates (collect_hour_stats data)) \<longleftrightarrow>
     sessions_at data h \<ge> 3 \<and> x = completion_rate_at data h"
proof -
  have "(h, x) \<in> set (hour_rates (collect_hour_stats data)) \<longleftrightarrow>
        (\<exists>t d. (h, t, d) \<in> set (collect_hour_stats data) \<and> t \<ge> 3 \<and> x = real d / real t)"
    by (force simp: hour_rates_def)
  then show ?thesis
    by (auto simp: collect_hour_stats_mem completion_rate_at_def)
qed

lemma hour_rates_keys:
  "fst ` set (hour_rates (collect_hour_stats data)) = {h. sessions_at data h \<ge> 3}"
proof (intro set_eqI iffI)
  fix h assume "h \<in> fst ` set (hour_rates (collect_hour_stats data))"
  then obtain x where "(h, x) \<in> set (hour_rates (collect_hour_stats data))" by auto
  then show "h \<in> {h. sessions_at data h \<ge> 3}" by (simp add: hour_rates_mem)
next
  fix h assume "h \<in> {h. sessions_at data h \<ge> 3}"
  then have "(h, completion_rate_at data h) \<in> set (hour_rates (collect_hour_stats data))"
    by (simp add: hour_rates_mem)
  then show "h \<in> fst ` set (hour_rates (collect_hour_stats data))" by force
qed

lemma sorted_take_drop_le:
  assumes "sorted (map f xs)" and "a \<in> set (take n xs)" and "b \<in> set (drop n xs)"
  shows "f a \<le> f b"
proof -
  have "sorted (map f (take n xs) @ map f (drop n xs))"
    using assms(1) by (simp flip: map_append)
  then have "\<forall>x \<in> set (map f (take n xs)). \<forall>y \<in> set (map f (drop n xs)). x \<le> y"
    by (simp add: sorted_append)
  with assms(2,3) show ?thesis by auto
qed

lemma hour_rates_distinct: "distinct (map fst (hour_rates (collect_hour_stats data)))"
proof -
  have "map fst (hour_rates st) = map fst (filter (\<lambda>(h, total, compl). total \<ge> 3) st)"
    for st :: hour_stats
    by (induction st) (auto simp: hour_rates_def)
  then show ?thesis
    using collect_hour_stats_distinct [of data] by (simp add: distinct_map_filter)
qed

lemma hour_rates_empty:
  "hour_rates (collect_hour_stats data) = [] \<longleftrightarrow> (\<forall>h. sessions_at data h < 3)"
proof -
  have "hour_rates (collect_hour_stats data) = [] \<longleftrightarrow>
          fst ` set (hour_rates (collect_hour_stats data)) = {}"
    by simp
  also have "\<dots> \<longleftrightarrow> (\<forall>h. sessions_at data h < 3)"
    unfolding hour_rates_keys by (auto simp: not_le)
  finally show ?thesis .
qed

lemma find_optimal_hours_default:
  assumes "hour_rates (collect_hour_stats data) = []"
  shows "find_optimal_hours data = [9, 10, 11, 14, 15, 16]"
  using assms by (simp add: find_optimal_hours_def)

lemma find_optimal_hours_selected:
  assumes "hour_rates (collect_hour_stats data) \<noteq> []"
  shows "find_optimal_hours data =
           sort (map fst (take 6 (sort_key (\<lambda>x. - snd x) (hour_rates (collect_hour_stats data)))))"
proof -
  have "sort_key (\<lambda>x. - snd x) (hour_rates (collect_hour_stats data)) \<noteq> []"
    using assms by (metis length_0_conv length_sort)
  then show ?thesis
    by (simp add: find_optimal_hours_def Let_def)
qed

text \<open>
  C7: the optimal hours of any session history are at most 6 hours in ascending order.
  When no hour has 3 sessions they are the default window 9, 10, 11, 14, 15, 16.
  Otherwise every hour returned has at least 3 sessions, no hour with at least 3 sessions
  that was left out has a higher completion rate than an hour returned, and as many hours
  are returned as there are hours with at least 3 sessions, up to 6.
\<close>

theorem find_optimal_hours_spec:
  "length (find_optimal_hours data) \<le> 6
   \<and> sorted (find_optimal_hours data)
   \<and> ((\<forall>h. sessions_at data h < 3) \<longrightarrow> find_optimal_hours data = [9, 10, 11, 14, 15, 16])
   \<and> ((\<exists>h. sessions_at data h \<ge> 3) \<longrightarrow>
         (\<forall>h \<in> set (find_optimal_hours data). sessions_at data h \<ge> 3)
       \<and> (\<forall>h \<in> set (find_optimal_hours data).
            \<forall>h'. sessions_at data h' \<ge> 3 \<and> h' \<notin> set (find_optimal_hours data) \<longrightarrow>
                 completion_rate_at data h' \<le> completion_rate_at data h)
       \<and> length (find_optimal_hours data) = min 6 (card {h. sessions_at data h \<ge> 3}))"
proof (cases "hour_rates (collect_hour_stats data) = []")
  case True
  then have d: "find_optimal_hours data = [9, 10, 11, 14, 15, 16]"
    by (rule find_optimal_hours_default)
  from True have "\<forall>h. sessions_at data h < 3" by (simp add: hour_rates_empty)
  then have n: "\<not> (\<exists>h. sessions_at data h \<ge> 3)" by (simp add: not_le)
  have "length (find_optimal_hours data) \<le> 6" by (simp add: d)
  moreover have "sorted (find_optimal_hours data)" by (simp add: d)
  ultimately show ?thesis using d n by blast
next
  case False
  let ?hr = "hour_rates (collect_hour_stats data)"
  let ?srt = "sort_key (\<lambda>x. - snd x) ?hr"
  have res: "find_optimal_hours data = sort (map fst (take 6 ?srt))"
    using False by (rule find_optimal_hours_selected)
  have set_res: "set (find_optimal_hours data) = fst ` set (take 6 ?srt)"
    by (simp add: res)
  have set_srt: "set ?srt = set ?hr" by simp
  have len: "length (find_optimal_hours data) = min 6 (length ?hr)"
    by (simp add: res min.commute)
  have "card (set (map fst ?hr)) = length (map fst ?hr)"
    using hour_rates_distinct [of data] by (rule distinct_card)
  then have card: "length ?hr = card {h. sessions_at data h \<ge> 3}"
    by (simp add: hour_rates_keys)
  have not_all: "\<not> (\<forall>h. sessions_at data h < 3)"
    using False by (simp add: hour_rates_empty)
  have member: "sessions_at data h \<ge> 3" if "h \<in> set (find_optimal_hours data)" for h
  proof -
    from that obtain x where "(h, x) \<in> set (take 6 ?srt)"
      unfolding set_res by auto
    then have "(h, x) \<in> set ?srt" by (rule in_set_takeD)
    then have "(h, x) \<in> set ?hr" by (simp only: set_srt)
    then show ?thesis by (simp only: hour_rates_mem)
  qed
  have best: "completion_rate_at data h' \<le> completion_rate_at data h"
    if h: "h \<in> set (find_optimal_hours data)"
      and h': "sessions_at data h' \<ge> 3" "h' \<notin> set (find_optimal_hours data)" for h h'
  proof -
    from h obtain x where x: "(h, x) \<in> set (take 6 ?srt)"
      unfolding set_res by auto
    then have "(h, x) \<in> set ?srt" by (rule in_set_takeD)
    then have "(h, x) \<in> set ?hr" by (simp only: set_srt)
    then have xr: "x = completion_rate_at data h" by (simp only: hour_rates_mem)
    from h'(1) have "(h', completion_rate_at data h') \<in> set ?hr"
      by (simp only: hour_rates_mem)
    then have "(h', completion_rate_at data h') \<in> set ?srt" by (simp only: set_srt)
    then have "(h', completion_rate_at data h') \<in> set (take 6 ?srt) \<union> set (drop 6 ?srt)"
      by (simp only: set_append [symmetric] append_take_drop_id)
    moreover have "(h', completion_rate_at data h') \<notin> set (take 6 ?srt)"
    proof
      assume "(h', completion_rate_at data h') \<in> set (take 6 ?srt)"
      then have "fst (h', completion_rate_at data h') \<in> fst ` set (take 6 ?srt)"
        by (rule imageI)
      with h'(2) show False by (simp only: set_res fst_conv)
    qed
    ultimately have y: "(h', completion_rate_at data h') \<in> set (drop 6 ?srt)"
      by blast
    have "sorted (map (\<lambda>x. - snd x) ?srt)" by (rule sorted_sort_key)
    from sorted_take_drop_le [OF this x y] xr show ?thesis by simp
  qed
  have a: "length (find_optimal_hours data) \<le> 6" by (simp add: len)
  have b: "sorted (find_optimal_hours data)" by (simp only: res sorted_sort)
  have c: "length (find_optimal_hours data) = min 6 (card {h. sessions_at data h \<ge> 3})"
    by (simp only: len card)
  from a b c not_all member best show ?thesis by blast
qed

lemma py_int_10: "py_int ''10'' = Some 10"
  by (simp add: py_int_def py_strip_def py_space_def py_digit_def)

lemma record_hour_example:
  "record_hour [''started_at'' \<mapsto> PStr ''2024-05-06T10:15:00'', ''completed'' \<mapsto> PBool c] = Some 10"
  by (simp add: record_hour_def dict_get_def slice_11_13_def py_int_10)

theorem find_optimal_hours_spec_witness:
  "find_optimal_hours [] = [9, 10, 11, 14, 15, 16]
   \<and> find_optimal_hours
        [[''started_at'' \<mapsto> PStr ''2024-05-06T10:15:00'', ''completed'' \<mapsto> PBool True],
         [''started_at'' \<mapsto> PStr ''2024-05-06T10:15:00'', ''completed'' \<mapsto> PBool False],
         [''started_at'' \<mapsto> PStr ''2024-05-06T10:15:00'', ''completed'' \<mapsto> PBool True]] = [10]
   \<and> 3 \<le> sessions_at
        [[''started_at'' \<mapsto> PStr ''2024-05-06T10:15:00'', ''completed'' \<mapsto> PBool True],
         [''started_at'' \<mapsto> PStr ''2024-05-06T10:15:00'', ''completed'' \<mapsto> PBool False],
         [''started_at'' \<mapsto> PStr ''2024-05-06T10:15:00'', ''completed'' \<mapsto> PBool True]] 10"
proof -
  let ?d = "[[''started_at'' \<mapsto> PStr ''2024-05-06T10:15:00'', ''completed'' \<mapsto> PBool True],
         [''started_at'' \<mapsto> PStr ''2024-05-06T10:15:00'', ''completed'' \<mapsto> PBool False],
         [''started_at'' \<mapsto> PStr ''2024-05-06T10:15:00'', ''completed'' \<mapsto> PBool True]]"
  have e: "\<forall>h. sessions_at [] h < 3" by (simp add: sessions_at_def)
  have a: "find_optimal_hours [] = [9, 10, 11, 14, 15, 16]"
    using find_optimal_hours_spec [of "[]"] e by blast
  have s: "sessions_at ?d 10 = 3"
    by (simp add: sessions_at_def record_hour_example)
  then have x: "\<exists>h. sessions_at ?d h \<ge> 3" by (intro exI [of _ 10]) simp
  have st: "collect_hour_stats ?d = [(10, 3, 2)]"
    by (simp add: collect_hour_stats_def record_hour_example add_session_def record_completed_def
        dict_get_def)
  have r: "find_optimal_hours ?d = [10]"
    by (simp add: find_optimal_hours_def st hour_rates_def)
  have "\<forall>h \<in> set (find_optimal_hours ?d). sessions_at ?d h \<ge> 3"
    using find_optimal_hours_spec [of ?d] x by blast
  then have "3 \<le> sessions_at ?d 10" by (simp add: r)
  with a r show ?thesis by simp
qed

subsection \<open>Default prediction of the performance model\<close>

lemma perf_predict_returns_default:
  assumes "(\<not> is_trained model \<and> disk = None) \<or> user_data = []"
  shows "perf_predict np disk model user_data course_data = Inr default_prediction"
  using assms by (auto simp: perf_predict_def load_model_def split: option.splits)

text \<open>
  C2: the default prediction is claimed to hold exactly 3 recommendation strings.  That
  is what the handler answers for an empty history, but the default of the model itself
  holds a fourth string.  \<^verbatim>\<open>predict\<close> returns the model's default, with completion rate
  0.5, quiz score 65 and risk level medium, whenever the model is untrained and nothing can
  be loaded, whatever the history, and whenever the history is empty, whatever the model.
\<close>

theorem default_prediction_recommendations:
  "perf_predict np None (model \<lparr> is_trained := False \<rparr>) user_data course_data
     = Inr default_prediction
   \<and> perf_predict np disk model [] course_data = Inr default_prediction
   \<and> predicted_completion_rate default_prediction = 0.5
   \<and> predicted_quiz_score default_prediction = 65
   \<and> risk_level default_prediction = ''medium''
   \<and> recommendations default_prediction =
       [''Set a consistent study schedule'', ''Start with shorter study sessions'',
        ''Review material before quizzes'', ''Minimize distractions during study'']
   \<and> length (recommendations default_prediction) = 4
   \<and> predict_performance np disk [] course_data =
       Inr (default_prediction
              \<lparr> recommendations := [''Set a consistent study schedule'',
                                    ''Start with shorter study sessions'',
                                    ''Review material before quizzes''] \<rparr>)"
proof (intro conjI)
  show "perf_predict np None (model \<lparr> is_trained := False \<rparr>) user_data course_data
     = Inr default_prediction"
    by (rule perf_predict_returns_default) simp
  show "perf_predict np disk model [] course_data = Inr default_prediction"
    by (rule perf_predict_returns_default) simp
  show "predict_performance np disk [] course_data =
       Inr (default_prediction
              \<lparr> recommendations := [''Set a consistent study schedule'',
                                    ''Start with shorter study sessions'',
                                    ''Review material before quizzes''] \<rparr>)"
    by (simp add: predict_performance_def default_prediction_def)
qed (simp_all add: default_prediction_def)

subsection \<open>Alternate field names\<close>

















subsection \<open>Stored interaction scores\<close>

lemma map_of_map_entry:
  "map_of (map (\<lambda>(k, v). if k = h then (k, f v) else (k, v)) st) k' =
     (if k' = h then map_option f (map_of st h) else map_of st k')"
  by (induction st) auto

lemma map_of_snoc_new:
  "h \<notin> fst ` set st \<Longrightarrow>
     map_of (st @ [(h, v)]) k = (if k = h then Some v else map_of st k)"
  by (induction st) auto

lemma map_of_set_score:
  "map_of (set_score cs c s) k =
     (if k = c then Some (max (case map_of cs c of None \<Rightarrow> 0 | Some v \<Rightarrow> v) s)
      else map_of cs k)"
proof (cases "c \<in> fst ` set cs")
  case True
  then obtain v where v: "map_of cs c = Some v"
    by (metis domD dom_map_of_conv_image_fst)
  from True have "set_score cs c s = map (\<lambda>(k, v). if k = c then (k, max v s) else (k, v)) cs"
    by (simp add: set_score_def)
  then show ?thesis
    using v by (simp add: map_of_map_entry [where f = "\<lambda>v. max v s"])
next
  case False
  then have n: "map_of cs c = None"
    by (simp add: map_of_eq_None_iff)
  from False have "set_score cs c s = cs @ [(c, max 0 s)]"
    by (simp add: set_score_def)
  then show ?thesis
    using n False by (simp add: map_add_def split: option.splits)
qed

lemma map_of_update_user:
  "map_of (update_user up u c s) k =
     (if k = u then Some (set_score (case map_of up u of None \<Rightarrow> [] | Some cs \<Rightarrow> cs) c s)
      else map_of up k)"
proof (cases "u \<in> fst ` set up")
  case True
  then obtain cs where cs: "map_of up u = Some cs"
    by (metis domD dom_map_of_conv_image_fst)
  from True have "update_user up u c s =
      map (\<lambda>(k, cs). if k = u then (k, set_score cs c s) else (k, cs)) up"
    by (simp add: update_user_def)
  then show ?thesis
    using cs by (simp add: map_of_map_entry [where f = "\<lambda>cs. set_score cs c s"])
next
  case False
  then have n: "map_of up u = None"
    by (simp add: map_of_eq_None_iff)
  from False have "update_user up u c s =
      map (\<lambda>(k, cs). if k = u then (k, set_score cs c s) else (k, cs)) (up @ [(u, [])])"
    by (simp add: update_user_def)
  then show ?thesis
    using n False
    by (simp add: map_of_map_entry [where f = "\<lambda>cs. set_score cs c s"] map_add_def
          split: option.splits)
qed

lemma stored_score_update_user:
  "stored_score (update_user up u c s) u' c' =
     (if u' = u \<and> c' = c
      then Some (max (case stored_score up u c of None \<Rightarrow> 0 | Some v \<Rightarrow> v) s)
      else stored_score up u' c')"
  by (simp add: stored_score_def map_of_update_user map_of_set_score split: option.splits)

lemma train_profiles_snoc:
  "train_profiles (data @ [r]) = train_step (train_profiles data) r"
  by (simp add: train_profiles_def)

lemma observations_snoc:
  "observations (data @ [r]) u c =
     observations data u c @
       (if truthy (rec_user_id r) \<and> truthy (rec_course_id r)
           \<and> py_key (rec_user_id r) = u \<and> py_key (rec_course_id r) = c then [r] else [])"
  by (simp add: observations_def)

lemma interaction_score_pos: "0 < interaction_score r"
  by (simp add: interaction_score_def)

lemma stored_score_train:
  "stored_score (fst (train_profiles data)) u c =
     (if observations data u c = [] then None
      else Some (Max (interaction_score ` set (observations data u c))))"
proof (induction data rule: rev_induct)
  case Nil
  show ?case by (simp add: train_profiles_def observations_def stored_score_def)
next
  case (snoc r data)
  let ?hit = "truthy (rec_user_id r) \<and> truthy (rec_course_id r)
              \<and> py_key (rec_user_id r) = u \<and> py_key (rec_course_id r) = c"
  show ?case
  proof (cases ?hit)
    case False
    then have o: "observations (data @ [r]) u c = observations data u c"
      by (simp add: observations_snoc)
    from False have "stored_score (fst (train_profiles (data @ [r]))) u c =
        stored_score (fst (train_profiles data)) u c"
      by (auto simp add: train_profiles_snoc train_step_def Let_def stored_score_update_user)
    then show ?thesis
      using snoc.IH o by simp
  next
    case True
    then have o: "observations (data @ [r]) u c = observations data u c @ [r]"
      by (simp add: observations_snoc)
    from True have s: "stored_score (fst (train_profiles (data @ [r]))) u c =
        Some (max (case stored_score (fst (train_profiles data)) u c of
                     None \<Rightarrow> 0 | Some v \<Rightarrow> v) (interaction_score r))"
      by (auto simp add: train_profiles_snoc train_step_def Let_def stored_score_update_user)
    show ?thesis
    proof (cases "observations data u c = []")
      case True
      then show ?thesis
        using s o snoc.IH interaction_score_pos [of r] by (simp add: max_def)
    next
      case False
      then have "Max (insert (interaction_score r) (interaction_score ` set (observations data u c)))
          = max (interaction_score r) (Max (interaction_score ` set (observations data u c)))"
        by (intro Max_insert) simp_all
      then show ?thesis
        using s o snoc.IH False by (simp add: max.commute)
    qed
  qed
qed

lemma Max_interaction_score:
  assumes "rs \<noteq> []"
  shows "Max (interaction_score ` set rs) = (if \<exists>r \<in> set rs. rec_completed r then 1 else 0.5)"
proof (cases "\<exists>r \<in> set rs. rec_completed r")
  case True
  then obtain r where r: "r \<in> set rs" "rec_completed r"
    by blast
  have "Max (interaction_score ` set rs) = 1"
  proof (rule Max_eqI)
    show "finite (interaction_score ` set rs)" by simp
    show "\<And>y. y \<in> interaction_score ` set rs \<Longrightarrow> y \<le> 1"
      by (auto simp add: interaction_score_def)
    show "1 \<in> interaction_score ` set rs"
      using r by (force simp add: interaction_score_def)
  qed
  then show ?thesis
    using True by simp
next
  case False
  then have "interaction_score ` set rs = {0.5}"
    using assms by (cases rs) (auto simp add: interaction_score_def)
  then show ?thesis
    using False by simp
qed

lemma train_profiles_skips:
  "train_profiles (filter (\<lambda>r. truthy (rec_user_id r) \<and> truthy (rec_course_id r)) data) =
     train_profiles data"
proof (induction data rule: rev_induct)
  case Nil
  show ?case by simp
next
  case (snoc r data)
  then show ?case
    by (simp add: train_profiles_snoc) (simp add: train_step_def)
qed

text \<open>
  C9.  After training on any list of records, a user and course pair is in the
  user-profile lookup exactly when some record with both identifiers observes it, and the score
  stored for the pair is the maximum over these observations of 1.0 for a completed one and 0.5
  otherwise: 1.0 when a completed observation exists, 0.5 when none does.  Records lacking a
  user or a course identifier contribute nothing: training on the list without them builds the
  same lookup structures.
\<close>

theorem stored_interaction_score:
  "(stored_score (fst (train_profiles data)) u c \<noteq> None \<longleftrightarrow> observations data u c \<noteq> [])
   \<and> (\<forall>s. stored_score (fst (train_profiles data)) u c = Some s \<longrightarrow>
          s = Max (interaction_score ` set (observations data u c))
          \<and> (s = 1 \<longleftrightarrow> (\<exists>r \<in> set (observations data u c). rec_completed r))
          \<and> (s = 0.5 \<longleftrightarrow> \<not> (\<exists>r \<in> set (observations data u c). rec_completed r)))
   \<and> train_profiles (filter (\<lambda>r. truthy (rec_user_id r) \<and> truthy (rec_course_id r)) data)
       = train_profiles data"
proof (intro conjI allI impI)
  show "stored_score (fst (train_profiles data)) u c \<noteq> None \<longleftrightarrow> observations data u c \<noteq> []"
    by (simp add: stored_score_train)
next
  fix s
  assume a: "stored_score (fst (train_profiles data)) u c = Some s"
  then have ne: "observations data u c \<noteq> []"
    by (simp add: stored_score_train split: if_splits)
  with a show m: "s = Max (interaction_score ` set (observations data u c))"
    by (simp add: stored_score_train)
  from m show "s = 1 \<longleftrightarrow> (\<exists>r \<in> set (observations data u c). rec_completed r)"
    by (simp add: Max_interaction_score [OF ne])
  from m show "s = 0.5 \<longleftrightarrow> \<not> (\<exists>r \<in> set (observations data u c). rec_completed r)"
    by (simp add: Max_interaction_score [OF ne])
next
  show "train_profiles (filter (\<lambda>r. truthy (rec_user_id r) \<and> truthy (rec_course_id r)) data)
       = train_profiles data"
    by (rule train_profiles_skips)
qed


theorem stored_interaction_score_witness:
  "stored_score
     (fst (train_profiles
        [[''user_id'' \<mapsto> PStr ''u1'', ''course_id'' \<mapsto> PStr ''c1''],
         [''userId'' \<mapsto> PStr ''u1'', ''courseId'' \<mapsto> PStr ''c1'', ''completed'' \<mapsto> PBool True],
         [''course_id'' \<mapsto> PStr ''c1'', ''completed'' \<mapsto> PBool True],
         [''user_id'' \<mapsto> PStr ''u2'', ''course_id'' \<mapsto> PStr ''c1'']]))
     (PStr ''u1'') (PStr ''c1'') = Some 1
   \<and> (\<exists>r \<in> set (observations
        [[''user_id'' \<mapsto> PStr ''u1'', ''course_id'' \<mapsto> PStr ''c1''],
         [''userId'' \<mapsto> PStr ''u1'', ''courseId'' \<mapsto> PStr ''c1'', ''completed'' \<mapsto> PBool True],
         [''course_id'' \<mapsto> PStr ''c1'', ''completed'' \<mapsto> PBool True],
         [''user_id'' \<mapsto> PStr ''u2'', ''course_id'' \<mapsto> PStr ''c1'']]
        (PStr ''u1'') (PStr ''c1'')). rec_completed r)
   \<and> stored_score
     (fst (train_profiles
        [[''user_id'' \<mapsto> PStr ''u1'', ''course_id'' \<mapsto> PStr ''c1''],
         [''userId'' \<mapsto> PStr ''u1'', ''courseId'' \<mapsto> PStr ''c1'', ''completed'' \<mapsto> PBool True],
         [''course_id'' \<mapsto> PStr ''c1'', ''completed'' \<mapsto> PBool True],
         [''user_id'' \<mapsto> PStr ''u2'', ''course_id'' \<mapsto> PStr ''c1'']]))
     (PStr ''u2'') (PStr ''c1'') = Some 0.5"
proof -
  let ?d = "[[''user_id'' \<mapsto> PStr ''u1'', ''course_id'' \<mapsto> PStr ''c1''],
         [''userId'' \<mapsto> PStr ''u1'', ''courseId'' \<mapsto> PStr ''c1'', ''completed'' \<mapsto> PBool True],
         [''course_id'' \<mapsto> PStr ''c1'', ''completed'' \<mapsto> PBool True],
         [''user_id'' \<mapsto> PStr ''u2'', ''course_id'' \<mapsto> PStr ''c1'']]"
  have p: "fst (train_profiles ?d) =
      [(PStr ''u1'', [(PStr ''c1'', 1)]), (PStr ''u2'', [(PStr ''c1'', 0.5)])]"
    by (simp add: train_profiles_def train_step_def Let_def rec_user_id_def rec_course_id_def
        rec_completed_def interaction_score_def dict_get_def update_user_def set_score_def)
  have a: "stored_score (fst (train_profiles ?d)) (PStr ''u1'') (PStr ''c1'') = Some 1"
    by (simp add: p stored_score_def)
  have b: "stored_score (fst (train_profiles ?d)) (PStr ''u2'') (PStr ''c1'') = Some 0.5"
    by (simp add: p stored_score_def)
  note t = stored_interaction_score [of ?d "PStr ''u1''" "PStr ''c1''",
      THEN conjunct2, THEN conjunct1, rule_format, OF a]
  from t have "\<exists>r \<in> set (observations ?d (PStr ''u1'') (PStr ''c1'')). rec_completed r"
    by simp
  with a b show ?thesis
    by (intro conjI)
qed

subsection \<open>Range of the recommendation score\<close>

lemma set_score_range:
  assumes "0 \<le> s" "s \<le> 1" "\<forall>p \<in> set cs. 0 \<le> snd p \<and> snd p \<le> 1"
  shows "\<forall>p \<in> set (set_score cs c s). 0 \<le> snd p \<and> snd p \<le> 1"
  using assms by (auto simp add: set_score_def max_def split: if_splits)

lemma map_set_score_range:
  assumes "0 \<le> s" "s \<le> 1" "\<forall>q \<in> set m. \<forall>p \<in> set (snd q). 0 \<le> snd p \<and> snd p \<le> 1"
  shows "\<forall>q \<in> set (map (\<lambda>(k, cs). if k = u then (k, set_score cs c s) else (k, cs)) m).
           \<forall>p \<in> set (snd q). 0 \<le> snd p \<and> snd p \<le> 1"
proof (intro ballI)
  fix q p
  assume q: "q \<in> set (map (\<lambda>(k, cs). if k = u then (k, set_score cs c s) else (k, cs)) m)"
    and p: "p \<in> set (snd q)"
  from q obtain k cs where kc: "(k, cs) \<in> set m"
      "q = (if k = u then (k, set_score cs c s) else (k, cs))"
    by auto
  from kc(1) assms(3) have r: "\<forall>p \<in> set cs. 0 \<le> snd p \<and> snd p \<le> 1"
    by force
  show "0 \<le> snd p \<and> snd p \<le> 1"
  proof (cases "k = u")
    case True
    with kc(2) p have "p \<in> set (set_score cs c s)" by simp
    with set_score_range [OF assms(1) assms(2) r] show ?thesis by blast
  next
    case False
    with kc(2) p have "p \<in> set cs" by simp
    with r show ?thesis by blast
  qed
qed

lemma update_user_range:
  assumes "0 \<le> s" "s \<le> 1" "\<forall>q \<in> set up. \<forall>p \<in> set (snd q). 0 \<le> snd p \<and> snd p \<le> 1"
  shows "\<forall>q \<in> set (update_user up u c s). \<forall>p \<in> set (snd q). 0 \<le> snd p \<and> snd p \<le> 1"
proof -
  have "\<forall>q \<in> set (if u \<notin> fst ` set up then up @ [(u, [])] else up).
          \<forall>p \<in> set (snd q). 0 \<le> snd p \<and> snd p \<le> 1"
    using assms(3) by auto
  from map_set_score_range [OF assms(1) assms(2) this] show ?thesis
    unfolding update_user_def Let_def .
qed

lemma update_course_le:
  assumes "\<forall>p \<in> set cp. snd (snd p) \<le> fst (snd p)"
  shows "\<forall>p \<in> set (update_course cp c b). snd (snd p) \<le> fst (snd p)"
  using assms by (auto simp add: update_course_def split: if_splits)

lemma train_profiles_range:
  "(\<forall>q \<in> set (fst (train_profiles data)). \<forall>p \<in> set (snd q). 0 \<le> snd p \<and> snd p \<le> 1)
   \<and> (\<forall>p \<in> set (snd (train_profiles data)). snd (snd p) \<le> fst (snd p))"
proof (induction data rule: rev_induct)
  case Nil
  show ?case by (simp add: train_profiles_def)
next
  case (snoc r data)
  have s: "0 \<le> interaction_score r" "interaction_score r \<le> 1"
    by (simp_all add: interaction_score_def)
  show ?case
  proof (cases "\<not> truthy (rec_user_id r) \<or> \<not> truthy (rec_course_id r)")
    case True
    then have "train_profiles (data @ [r]) = train_profiles data"
      by (auto simp add: train_profiles_snoc train_step_def Let_def)
    then show ?thesis using snoc.IH by simp
  next
    case False
    then have e: "train_profiles (data @ [r]) =
        (update_user (fst (train_profiles data)) (py_key (rec_user_id r))
           (py_key (rec_course_id r)) (interaction_score r),
         update_course (snd (train_profiles data)) (py_key (rec_course_id r)) (rec_completed r))"
      by (simp add: train_profiles_snoc train_step_def Let_def)
    show ?thesis
      unfolding e fst_conv snd_conv
      using update_user_range [OF s conjunct1 [OF snoc.IH]]
        update_course_le [OF conjunct2 [OF snoc.IH]]
      by (intro conjI)
  qed
qed

lemma popularity_term_range:
  assumes "\<forall>p \<in> set cp. snd (snd p) \<le> fst (snd p)"
  shows "0 \<le> popularity_term c cp \<and> popularity_term c cp \<le> 0.3"
proof (cases "map_of cp c")
  case None
  then show ?thesis by (simp add: popularity_term_def)
next
  case (Some tk)
  obtain t k where tk: "tk = (t, k)" by (cases tk)
  from Some tk have "(c, t, k) \<in> set cp"
    by (simp add: map_of_SomeD)
  with assms have le: "k \<le> t" by force
  show ?thesis
  proof (cases "t > 0")
    case False
    then show ?thesis using Some tk by (simp add: popularity_term_def)
  next
    case True
    then show ?thesis
      using Some tk le by (simp add: popularity_term_def field_simps)
  qed
qed

lemma level_match_range: "0 \<le> level_match_get a b \<and> level_match_get a b \<le> 1"
proof -
  have m: "0 \<le> m \<and> m \<le> 1" if "map_of level_match k = Some m" for k m
    using map_of_SomeD [OF that] by (auto simp add: level_match_def)
  show ?thesis
    using m by (auto simp add: level_match_get_def split: pyval.splits option.splits)
qed

lemma difficulty_term_range:
  "0 \<le> difficulty_term user course \<and> difficulty_term user course \<le> 0.2"
  using level_match_range
    [of "dict_get (pref_fields (get_preferences user)) ''skill_level'' (PStr ''beginner'')"
        "dict_get course ''difficulty'' (PStr ''beginner'')"]
  by (simp add: difficulty_term_def)

lemma interest_term_range:
  "interest_term user course = Inr i \<Longrightarrow> i = 0 \<or> i = 0.3"
  by (auto simp add: interest_term_def split: interests.splits option.splits if_splits)

lemma interest_term_returns:
  assumes "pref_interests (get_preferences user) \<noteq> NullInterests"
    and "py_lower (dict_get course ''category'' (PStr [])) \<noteq> None"
    and "\<forall>is. pref_interests (get_preferences user) = Interests is
           \<longrightarrow> (\<forall>i \<in> set is. py_lower i \<noteq> None)"
  shows "\<exists>i. interest_term user course = Inr i"
  using assms by (force simp add: interest_term_def split: interests.splits option.splits)

lemma mean_range:
  assumes "xs \<noteq> []" "\<forall>x \<in> set xs. 0 \<le> x \<and> x \<le> 1"
  shows "0 \<le> mean xs \<and> mean xs \<le> 1"
proof -
  from assms(2) have "0 \<le> sum_list xs \<and> sum_list xs \<le> real (length xs)"
    by (induction xs) auto
  moreover from assms(1) have "0 < real (length xs)" by simp
  ultimately show ?thesis
    by (simp add: mean_def)
qed

lemma similar_scores_range:
  assumes "\<forall>q \<in> set up. \<forall>p \<in> set (snd q). 0 \<le> snd p \<and> snd p \<le> 1"
  shows "\<forall>x \<in> set (similar_scores u mine c up). 0 \<le> x \<and> x \<le> 1"
proof
  fix x
  assume "x \<in> set (similar_scores u mine c up)"
  then obtain oid oc where q: "(oid, oc) \<in> set up"
    and x: "x \<in> set (if oid = u then []
               else if card (fst ` set mine \<inter> fst ` set oc) > 0 \<and> c \<in> fst ` set oc
                    then [the (map_of oc c)
                            * (real (card (fst ` set mine \<inter> fst ` set oc))
                               / real (card (fst ` set mine \<union> fst ` set oc)))]
                    else [])"
    unfolding similar_scores_def Let_def set_concat set_map by auto
  from x have m: "c \<in> fst ` set oc" and o: "0 < card (fst ` set mine \<inter> fst ` set oc)"
    and e: "x = the (map_of oc c)
                  * (real (card (fst ` set mine \<inter> fst ` set oc))
                     / real (card (fst ` set mine \<union> fst ` set oc)))"
    by (simp_all split: if_splits)
  from m obtain v where v: "map_of oc c = Some v"
    by (metis domD dom_map_of_conv_image_fst)
  then have "(c, v) \<in> set oc" by (rule map_of_SomeD)
  with q assms have vr: "0 \<le> v" "v \<le> 1" by force+
  have "card (fst ` set mine \<inter> fst ` set oc) \<le> card (fst ` set mine \<union> fst ` set oc)"
    by (intro card_mono) auto
  with o have r: "0 \<le> real (card (fst ` set mine \<inter> fst ` set oc))
                      / real (card (fst ` set mine \<union> fst ` set oc))"
    "real (card (fst ` set mine \<inter> fst ` set oc))
       / real (card (fst ` set mine \<union> fst ` set oc)) \<le> 1"
    by simp_all
  from vr r show "0 \<le> x \<and> x \<le> 1"
    unfolding e v option.sel by (intro conjI mult_nonneg_nonneg mult_le_one)
qed

lemma collaborative_score_range:
  assumes "\<forall>q \<in> set up. \<forall>p \<in> set (snd q). 0 \<le> snd p \<and> snd p \<le> 1"
  shows "0 \<le> calculate_collaborative_score user c up
         \<and> calculate_collaborative_score user c up \<le> 1"
proof (cases "map_of up (py_key (scorer_user_id user))")
  case None
  then show ?thesis by (simp add: calculate_collaborative_score_def)
next
  case (Some mine)
  show ?thesis
  proof (cases "similar_scores (py_key (scorer_user_id user)) mine c up = []")
    case True
    then show ?thesis using Some by (simp add: calculate_collaborative_score_def)
  next
    case False
    from mean_range [OF False similar_scores_range [OF assms]] show ?thesis
      using Some False by (simp add: calculate_collaborative_score_def)
  qed
qed

text \<open>
  C5.  On the lookup structures that training builds from any list of records, for every
  user and candidate course, each of the four weighted signals lies between 0 and its weight
  (0.3 for the completion rate of the course, 0.2 for the difficulty match, 0.3 for the
  interest bonus, 0.2 for the collaborative signal), the score is the sum of the four capped
  at 1, and it lies in [0, 1].  The score is computed, with no exception, whenever the
  interests of the user are absent or a list of strings and the category of the course is
  absent or a string.
\<close>

theorem course_score_range:
  "0 \<le> popularity_term cid (snd (train_profiles data))
   \<and> popularity_term cid (snd (train_profiles data)) \<le> 0.3
   \<and> 0 \<le> difficulty_term user course \<and> difficulty_term user course \<le> 0.2
   \<and> (\<forall>i. interest_term user course = Inr i \<longrightarrow> 0 \<le> i \<and> i \<le> 0.3)
   \<and> 0 \<le> collaborative_term user cid (fst (train_profiles data))
   \<and> collaborative_term user cid (fst (train_profiles data)) \<le> 0.2
   \<and> (\<forall>s. calculate_course_score user course (fst (train_profiles data))
             (snd (train_profiles data)) = Inr s \<longrightarrow>
          0 \<le> s \<and> s \<le> 1
          \<and> (\<exists>i. interest_term user course = Inr i
                \<and> s = min 1 (popularity_term (py_key (dict_get course ''id'' PNone))
                                (snd (train_profiles data))
                              + difficulty_term user course + i
                              + collaborative_term user (py_key (dict_get course ''id'' PNone))
                                  (fst (train_profiles data)))))
   \<and> (pref_interests (get_preferences user) \<noteq> NullInterests
      \<and> py_lower (dict_get course ''category'' (PStr [])) \<noteq> None
      \<and> (\<forall>is. pref_interests (get_preferences user) = Interests is
             \<longrightarrow> (\<forall>i \<in> set is. py_lower i \<noteq> None))
      \<longrightarrow> (\<exists>s. calculate_course_score user course (fst (train_profiles data))
                  (snd (train_profiles data)) = Inr s))"
proof -
  note inv = train_profiles_range [of data]
  have p: "0 \<le> popularity_term c (snd (train_profiles data))
           \<and> popularity_term c (snd (train_profiles data)) \<le> 0.3" for c
    by (rule popularity_term_range [OF conjunct2 [OF inv]])
  have d: "0 \<le> difficulty_term user course \<and> difficulty_term user course \<le> 0.2"
    by (rule difficulty_term_range)
  have i: "0 \<le> i \<and> i \<le> 0.3" if "interest_term user course = Inr i" for i
    using interest_term_range [OF that] by auto
  have c: "0 \<le> collaborative_term user c (fst (train_profiles data))
           \<and> collaborative_term user c (fst (train_profiles data)) \<le> 0.2" for c
    using collaborative_score_range [OF conjunct1 [OF inv], of user c]
    by (simp add: collaborative_term_def)
  have s: "0 \<le> s \<and> s \<le> 1
          \<and> (\<exists>i. interest_term user course = Inr i
                \<and> s = min 1 (popularity_term (py_key (dict_get course ''id'' PNone))
                                (snd (train_profiles data))
                              + difficulty_term user course + i
                              + collaborative_term user (py_key (dict_get course ''id'' PNone))
                                  (fst (train_profiles data))))"
    if a: "calculate_course_score user course (fst (train_profiles data))
             (snd (train_profiles data)) = Inr s" for s
  proof -
    from a obtain j where j: "interest_term user course = Inr j"
      and e: "s = min 1 (popularity_term (py_key (dict_get course ''id'' PNone))
                                (snd (train_profiles data))
                              + difficulty_term user course + j
                              + collaborative_term user (py_key (dict_get course ''id'' PNone))
                                  (fst (train_profiles data)))"
      by (auto simp add: calculate_course_score_def Let_def split: sum.splits)
    from p [of "py_key (dict_get course ''id'' PNone)"] d i [OF j]
      c [of "py_key (dict_get course ''id'' PNone)"]
    have "0 \<le> s \<and> s \<le> 1"
      unfolding e by (simp add: min_def)
    with j e show ?thesis by blast
  qed
  have r: "\<exists>s. calculate_course_score user course (fst (train_profiles data))
                  (snd (train_profiles data)) = Inr s"
    if "pref_interests (get_preferences user) \<noteq> NullInterests
      \<and> py_lower (dict_get course ''category'' (PStr [])) \<noteq> None
      \<and> (\<forall>is. pref_interests (get_preferences user) = Interests is
             \<longrightarrow> (\<forall>i \<in> set is. py_lower i \<noteq> None))"
  proof -
    from that interest_term_returns [of user course]
    obtain j where "interest_term user course = Inr j" by blast
    then show ?thesis
      by (simp add: calculate_course_score_def Let_def)
  qed
  show ?thesis
    apply (intro conjI allI impI)
    subgoal by (rule conjunct1 [OF p])
    subgoal by (rule conjunct2 [OF p])
    subgoal by (rule conjunct1 [OF d])
    subgoal by (rule conjunct2 [OF d])
    subgoal for i' using i [of i'] by simp
    subgoal for i' using i [of i'] by simp
    subgoal by (rule conjunct1 [OF c])
    subgoal by (rule conjunct2 [OF c])
    subgoal for s' using s [of s'] by simp
    subgoal for s' using s [of s'] by simp
    subgoal for s' using s [of s'] by simp
    subgoal using r by simp
    done
qed


theorem course_score_range_witness:
  "calculate_course_score
       \<lparr> ud_fields = [''id'' \<mapsto> PStr ''u1''],
          ud_preferences = Some \<lparr> pref_fields = Map.empty,
                                    pref_interests = Interests [PStr ''Math''] \<rparr> \<rparr>
       [''id'' \<mapsto> PStr ''c2'', ''category'' \<mapsto> PStr ''math'']
       (fst (train_profiles
        [[''user_id'' \<mapsto> PStr ''u1'', ''course_id'' \<mapsto> PStr ''c1'', ''completed'' \<mapsto> PBool True],
         [''user_id'' \<mapsto> PStr ''u2'', ''course_id'' \<mapsto> PStr ''c1'', ''completed'' \<mapsto> PBool True],
         [''user_id'' \<mapsto> PStr ''u2'', ''course_id'' \<mapsto> PStr ''c2'']]))
       (snd (train_profiles
        [[''user_id'' \<mapsto> PStr ''u1'', ''course_id'' \<mapsto> PStr ''c1'', ''completed'' \<mapsto> PBool True],
         [''user_id'' \<mapsto> PStr ''u2'', ''course_id'' \<mapsto> PStr ''c1'', ''completed'' \<mapsto> PBool True],
         [''user_id'' \<mapsto> PStr ''u2'', ''course_id'' \<mapsto> PStr ''c2'']]))
     = Inr (11 / 20)
   \<and> interest_term
       \<lparr> ud_fields = [''id'' \<mapsto> PStr ''u1''],
          ud_preferences = Some \<lparr> pref_fields = Map.empty,
                                    pref_interests = Interests [PStr ''Math''] \<rparr> \<rparr>
       [''id'' \<mapsto> PStr ''c2'', ''category'' \<mapsto> PStr ''math''] = Inr (3 / 10)
   \<and> collaborative_term
       \<lparr> ud_fields = [''id'' \<mapsto> PStr ''u1''],
          ud_preferences = Some \<lparr> pref_fields = Map.empty,
                                    pref_interests = Interests [PStr ''Math''] \<rparr> \<rparr>
       (PStr ''c2'')
       (fst (train_profiles
        [[''user_id'' \<mapsto> PStr ''u1'', ''course_id'' \<mapsto> PStr ''c1'', ''completed'' \<mapsto> PBool True],
         [''user_id'' \<mapsto> PStr ''u2'', ''course_id'' \<mapsto> PStr ''c1'', ''completed'' \<mapsto> PBool True],
         [''user_id'' \<mapsto> PStr ''u2'', ''course_id'' \<mapsto> PStr ''c2'']])) = 1 / 20"
proof -
  let ?d = "[[''user_id'' \<mapsto> PStr ''u1'', ''course_id'' \<mapsto> PStr ''c1'', ''completed'' \<mapsto> PBool True],
         [''user_id'' \<mapsto> PStr ''u2'', ''course_id'' \<mapsto> PStr ''c1'', ''completed'' \<mapsto> PBool True],
         [''user_id'' \<mapsto> PStr ''u2'', ''course_id'' \<mapsto> PStr ''c2'']]"
  let ?u = "\<lparr> ud_fields = [''id'' \<mapsto> PStr ''u1''],
          ud_preferences = Some \<lparr> pref_fields = Map.empty,
                                    pref_interests = Interests [PStr ''Math''] \<rparr> \<rparr>"
  let ?c = "[''id'' \<mapsto> PStr ''c2'', ''category'' \<mapsto> PStr ''math'']"
  have up: "fst (train_profiles ?d) =
      [(PStr ''u1'', [(PStr ''c1'', 1)]), (PStr ''u2'', [(PStr ''c1'', 1), (PStr ''c2'', 0.5)])]"
    by (simp add: train_profiles_def train_step_def Let_def rec_user_id_def rec_course_id_def
        rec_completed_def interaction_score_def dict_get_def update_user_def set_score_def)
  have cp: "snd (train_profiles ?d) = [(PStr ''c1'', 2, 2), (PStr ''c2'', 1, 0)]"
    by (simp add: train_profiles_def train_step_def Let_def rec_user_id_def rec_course_id_def
        rec_completed_def interaction_score_def dict_get_def update_course_def)
  have lo: "py_lower (PStr ''Math'') = Some ''math''" "py_lower (PStr ''math'') = Some ''math''"
    by (simp_all add: py_lower_def py_lower_char_def char_of_def bit_0)
  have i: "interest_term ?u ?c = Inr (3 / 10)"
    by (simp add: interest_term_def get_preferences_def dict_get_def lo)
  have pre: "pref_interests (get_preferences ?u) \<noteq> NullInterests
      \<and> py_lower (dict_get ?c ''category'' (PStr [])) \<noteq> None
      \<and> (\<forall>is. pref_interests (get_preferences ?u) = Interests is
             \<longrightarrow> (\<forall>i \<in> set is. py_lower i \<noteq> None))"
    by (simp add: get_preferences_def dict_get_def lo)
  note t = course_score_range [of "PStr ''c2''" ?d ?u ?c]
  from t pre obtain s where s: "calculate_course_score ?u ?c (fst (train_profiles ?d))
      (snd (train_profiles ?d)) = Inr s"
    by blast
  have k: "py_key (dict_get ?c ''id'' PNone) = PStr ''c2''"
    by (simp add: dict_get_def)
  have "{PStr ''c1'', PStr ''c2'', PStr ''c1''} = {PStr ''c1'', PStr ''c2''}"
    by blast
  then have "card {PStr ''c1'', PStr ''c2'', PStr ''c1''} = 2"
    by simp
  then have co: "collaborative_term ?u (PStr ''c2'') (fst (train_profiles ?d)) = 1 / 20"
    by (simp add: up collaborative_term_def calculate_collaborative_score_def scorer_user_id_def
        dict_get_def similar_scores_def mean_def)
  have po: "popularity_term (PStr ''c2'') (snd (train_profiles ?d)) = 0"
    by (simp add: cp popularity_term_def)
  have di: "difficulty_term ?u ?c = 1 / 5"
    by (simp add: difficulty_term_def get_preferences_def dict_get_def level_match_get_def
        level_match_def)
  from t [THEN conjunct2, THEN conjunct2, THEN conjunct2, THEN conjunct2, THEN conjunct2,
      THEN conjunct2, THEN conjunct2, THEN conjunct1, rule_format, OF s]
  have "s = 11 / 20"
    unfolding k po di co i by (auto simp add: min_def)
  with s i co show ?thesis
    by simp
qed

end
